theory Spec2Isabelle
  imports Complex_Main
begin

section \<open>Python values\<close>

text \<open>
  A Python \<open>float\<close> is modelled by the value it denotes: a finite double is the rational
  number it stands for, and the three special values are kept apart. Comparisons follow
  IEEE 754 as Python exposes them: every comparison with \<open>nan\<close> is false. The two zeros
  are one value; they compare equal and are both falsy in Python.
\<close>

datatype pyfloat = Finite rat | PosInf | NegInf | NaN

fun flt :: "pyfloat \<Rightarrow> pyfloat \<Rightarrow> bool" where
  "flt NaN y = False"
| "flt x NaN = False"
| "flt (Finite a) (Finite b) = (a < b)"
| "flt (Finite a) PosInf = True"
| "flt (Finite a) NegInf = False"
| "flt PosInf y = False"
| "flt NegInf NegInf = False"
| "flt NegInf y = True"

fun fle :: "pyfloat \<Rightarrow> pyfloat \<Rightarrow> bool" where
  "fle NaN y = False"
| "fle x NaN = False"
| "fle (Finite a) (Finite b) = (a \<le> b)"
| "fle (Finite a) PosInf = True"
| "fle (Finite a) NegInf = False"
| "fle PosInf PosInf = True"
| "fle PosInf y = False"
| "fle NegInf y = True"

section \<open>data_analyzer.py: the bucket counters\<close>

text \<open>
  \<open>analyze_age_groups\<close>, \<open>analyze_bmi_categories\<close> and \<open>analyze_bp_categories\<close> each
  build a dict with a fixed set of keys, all initialised to 0, and add 1 to one key per
  element of their argument. The dict is a record with one counter per key; the keys of
  the source are given beside each field.
\<close>

record age_groups =
  g18_30 :: nat    \<comment> \<open>key "18-30"\<close>
  g31_45 :: nat    \<comment> \<open>key "31-45"\<close>
  g46_60 :: nat    \<comment> \<open>key "46-60"\<close>
  g61_75 :: nat    \<comment> \<open>key "61-75"\<close>
  g76_up :: nat    \<comment> \<open>key "76 and above"\<close>

definition age_groups_init :: age_groups where
  "age_groups_init = \<lparr>g18_30 = 0, g31_45 = 0, g46_60 = 0, g61_75 = 0, g76_up = 0\<rparr>"

fun age_groups_loop :: "int list \<Rightarrow> age_groups \<Rightarrow> age_groups" where
  "age_groups_loop [] g = g"
| "age_groups_loop (age # ages) g =
     age_groups_loop ages
       (if 18 \<le> age \<and> age \<le> 30 then g\<lparr>g18_30 := g18_30 g + 1\<rparr>
        else if 31 \<le> age \<and> age \<le> 45 then g\<lparr>g31_45 := g31_45 g + 1\<rparr>
        else if 46 \<le> age \<and> age \<le> 60 then g\<lparr>g46_60 := g46_60 g + 1\<rparr>
        else if 61 \<le> age \<and> age \<le> 75 then g\<lparr>g61_75 := g61_75 g + 1\<rparr>
        else g\<lparr>g76_up := g76_up g + 1\<rparr>)"


record bmi_categories =
  bmi_under :: nat     \<comment> \<open>key "underweight (<18.5)"\<close>
  bmi_normal :: nat    \<comment> \<open>key "normal weight (18.5-24.9)"\<close>
  bmi_over :: nat      \<comment> \<open>key "overweight (25-29.9)"\<close>
  bmi_obese :: nat     \<comment> \<open>key "obese (>=30)"\<close>

definition bmi_categories_init :: bmi_categories where
  "bmi_categories_init = \<lparr>bmi_under = 0, bmi_normal = 0, bmi_over = 0, bmi_obese = 0\<rparr>"

fun bmi_categories_loop :: "pyfloat list \<Rightarrow> bmi_categories \<Rightarrow> bmi_categories" where
  "bmi_categories_loop [] c = c"
| "bmi_categories_loop (bmi # bmi_values) c =
     bmi_categories_loop bmi_values
       (if flt bmi (Finite (37 / 2)) then c\<lparr>bmi_under := bmi_under c + 1\<rparr>
        else if fle (Finite (37 / 2)) bmi \<and> flt bmi (Finite 25)
          then c\<lparr>bmi_normal := bmi_normal c + 1\<rparr>
        else if fle (Finite 25) bmi \<and> flt bmi (Finite 30)
          then c\<lparr>bmi_over := bmi_over c + 1\<rparr>
        else c\<lparr>bmi_obese := bmi_obese c + 1\<rparr>)"

definition analyze_bmi_categories :: "pyfloat list \<Rightarrow> bmi_categories" where
  "analyze_bmi_categories bmi_values = bmi_categories_loop bmi_values bmi_categories_init"

record bp_categories =
  bp_normal :: nat      \<comment> \<open>key "normal (<120/80)"\<close>
  bp_elevated :: nat    \<comment> \<open>key "elevated (120-129/<80)"\<close>
  bp_stage1 :: nat      \<comment> \<open>key "hypertension stage 1 (130-139/80-89)"\<close>
  bp_stage2 :: nat      \<comment> \<open>key "hypertension stage 2 (>=140/90)"\<close>

definition bp_categories_init :: bp_categories where
  "bp_categories_init = \<lparr>bp_normal = 0, bp_elevated = 0, bp_stage1 = 0, bp_stage2 = 0\<rparr>"

fun bp_categories_loop :: "(int \<times> int) list \<Rightarrow> bp_categories \<Rightarrow> bp_categories" where
  "bp_categories_loop [] c = c"
| "bp_categories_loop ((systolic, diastolic) # bp_data) c =
     bp_categories_loop bp_data
       (if systolic < 120 \<and> diastolic < 80 then c\<lparr>bp_normal := bp_normal c + 1\<rparr>
        else if (120 \<le> systolic \<and> systolic < 130) \<and> diastolic < 80
          then c\<lparr>bp_elevated := bp_elevated c + 1\<rparr>
        else if (130 \<le> systolic \<and> systolic < 140) \<or> (80 \<le> diastolic \<and> diastolic < 90)
          then c\<lparr>bp_stage1 := bp_stage1 c + 1\<rparr>
        else c\<lparr>bp_stage2 := bp_stage2 c + 1\<rparr>)"

definition analyze_bp_categories :: "(int \<times> int) list \<Rightarrow> bp_categories" where
  "analyze_bp_categories bp_data = bp_categories_loop bp_data bp_categories_init"

text \<open>
  The four blood-pressure rules as the specification words them, (a) to (d), each
  reached only when the rules before it did not apply.
\<close>

datatype bp_bucket = Normal | Elevated | Stage1 | Stage2

definition spec_rule_a :: "int \<Rightarrow> int \<Rightarrow> bool" where
  "spec_rule_a s d = (s < 120 \<and> d < 80)"

definition spec_rule_b :: "int \<Rightarrow> int \<Rightarrow> bool" where
  "spec_rule_b s d = (120 \<le> s \<and> s < 130 \<and> d < 80)"

definition spec_rule_c :: "int \<Rightarrow> int \<Rightarrow> bool" where
  "spec_rule_c s d = ((130 \<le> s \<and> s < 140) \<or> (80 \<le> d \<and> d < 90))"

definition spec_bp_bucket :: "int \<times> int \<Rightarrow> bp_bucket" where
  "spec_bp_bucket p =
     (if spec_rule_a (fst p) (snd p) then Normal
      else if spec_rule_b (fst p) (snd p) then Elevated
      else if spec_rule_c (fst p) (snd p) then Stage1
      else Stage2)"


section \<open>Python values, continued\<close>

text \<open>
  A Python \<open>str\<close> is its sequence of Unicode code points. Exceptions are values: a
  function that can raise returns \<open>error + 'a\<close>, with \<open>Inl\<close> for the exception.
\<close>

type_synonym pystr = "int list"

datatype error =
  TypeError | ValueError | KeyError | IndexError | StatisticsError | ZeroDivisionError
  | OverflowError | AttributeError | OSError

definition ebind :: "error + 'a \<Rightarrow> ('a \<Rightarrow> error + 'b) \<Rightarrow> error + 'b" where
  "ebind m f = (case m of Inl e \<Rightarrow> Inl e | Inr x \<Rightarrow> f x)"

fun emap :: "('a \<Rightarrow> error + 'b) \<Rightarrow> 'a list \<Rightarrow> error + 'b list" where
  "emap f [] = Inr []"
| "emap f (x # xs) = ebind (f x) (\<lambda>y. ebind (emap f xs) (\<lambda>ys. Inr (y # ys)))"

text \<open>
  The values a loaded row holds: \<open>load_from_csv\<close> stores an \<open>int\<close>, a \<open>float\<close> or the
  cell's text (\<open>None\<close> for a cell the line does not have); \<open>load_from_json_files\<close> stores
  what the file holds, of which the model has numbers, strings, lists of strings and
  \<open>None\<close>. A row is a dict from field names to such values, and no function of the
  analyzer tests the type of what it reads.
\<close>

datatype pyvalue = VInt int | VFloat pyfloat | VStr pystr | VList "pystr list" | VNone

type_synonym row = "string \<rightharpoonup> pyvalue"

fun truthy :: "pyvalue \<Rightarrow> bool" where
  "truthy (VInt i) = (i \<noteq> 0)"
| "truthy (VFloat f) = (f \<noteq> Finite 0)"
| "truthy (VStr s) = (s \<noteq> [])"
| "truthy (VList xs) = (xs \<noteq> [])"
| "truthy VNone = False"

fun num_of :: "pyvalue \<Rightarrow> pyfloat option" where
  "num_of (VInt i) = Some (Finite (of_int i))"
| "num_of (VFloat f) = Some f"
| "num_of v = None"

definition is_number :: "pyvalue \<Rightarrow> bool" where
  "is_number v = (num_of v \<noteq> None)"

definition num_lt :: "pyvalue \<Rightarrow> pyvalue \<Rightarrow> bool" where
  "num_lt x y = (case (num_of x, num_of y) of (Some a, Some b) \<Rightarrow> flt a b | _ \<Rightarrow> False)"

subsection \<open>Comparisons and conditions\<close>

text \<open>
  \<open>x < y\<close> and \<open>x <= y\<close> where one side is a number, as every comparison of the
  analyzer has it: an \<open>int\<close> and a \<open>float\<close> are compared by their exact values, and a
  string, a list or \<open>None\<close> on the other side raises \<open>TypeError\<close>.
\<close>

definition py_lt :: "pyvalue \<Rightarrow> pyvalue \<Rightarrow> error + bool" where
  "py_lt x y =
     (case num_of x of
        None \<Rightarrow> Inl TypeError
      | Some a \<Rightarrow> (case num_of y of None \<Rightarrow> Inl TypeError | Some b \<Rightarrow> Inr (flt a b)))"

definition py_le :: "pyvalue \<Rightarrow> pyvalue \<Rightarrow> error + bool" where
  "py_le x y =
     (case num_of x of
        None \<Rightarrow> Inl TypeError
      | Some a \<Rightarrow> (case num_of y of None \<Rightarrow> Inl TypeError | Some b \<Rightarrow> Inr (fle a b)))"

text \<open>
  \<open>a and b\<close> and \<open>a or b\<close> evaluate \<open>b\<close> only when \<open>a\<close> does not decide: an
  exception \<open>b\<close> would raise is not raised then. A chained comparison
  \<open>a <= x <= b\<close> is \<open>a <= x and x <= b\<close>. \<open>py_if\<close> is one branch of an if/elif
  chain: the condition may raise, and only the branch taken is run.
\<close>

definition py_and :: "error + bool \<Rightarrow> error + bool \<Rightarrow> error + bool" where
  "py_and a b = (case a of Inl e \<Rightarrow> Inl e | Inr x \<Rightarrow> if x then b else Inr False)"

definition py_or :: "error + bool \<Rightarrow> error + bool \<Rightarrow> error + bool" where
  "py_or a b = (case a of Inl e \<Rightarrow> Inl e | Inr x \<Rightarrow> if x then Inr True else b)"

definition py_if :: "error + bool \<Rightarrow> error + 'a \<Rightarrow> error + 'a \<Rightarrow> error + 'a" where
  "py_if c t f = (case c of Inl e \<Rightarrow> Inl e | Inr x \<Rightarrow> if x then t else f)"

subsection \<open>The bucket counters on the values of a row\<close>

text \<open>
  \<open>analyze_age_groups\<close>, \<open>analyze_bmi_categories\<close> and \<open>analyze_bp_categories\<close>
  above are the three functions at the types of their annotations. The analyzer calls
  them on what the rows hold; here they are on arbitrary values, with the same chains of
  conditions. They return the same counts on values of the annotated types.
\<close>

fun age_groups_values_loop :: "pyvalue list \<Rightarrow> age_groups \<Rightarrow> error + age_groups" where
  "age_groups_values_loop [] g = Inr g"
| "age_groups_values_loop (age # ages) g =
     py_if (py_and (py_le (VInt 18) age) (py_le age (VInt 30)))
       (age_groups_values_loop ages (g\<lparr>g18_30 := g18_30 g + 1\<rparr>))
    (py_if (py_and (py_le (VInt 31) age) (py_le age (VInt 45)))
       (age_groups_values_loop ages (g\<lparr>g31_45 := g31_45 g + 1\<rparr>))
    (py_if (py_and (py_le (VInt 46) age) (py_le age (VInt 60)))
       (age_groups_values_loop ages (g\<lparr>g46_60 := g46_60 g + 1\<rparr>))
    (py_if (py_and (py_le (VInt 61) age) (py_le age (VInt 75)))
       (age_groups_values_loop ages (g\<lparr>g61_75 := g61_75 g + 1\<rparr>))
       (age_groups_values_loop ages (g\<lparr>g76_up := g76_up g + 1\<rparr>)))))"

definition analyze_age_groups_values :: "pyvalue list \<Rightarrow> error + age_groups" where
  "analyze_age_groups_values ages = age_groups_values_loop ages age_groups_init"

fun bmi_categories_values_loop ::
  "pyvalue list \<Rightarrow> bmi_categories \<Rightarrow> error + bmi_categories" where
  "bmi_categories_values_loop [] c = Inr c"
| "bmi_categories_values_loop (bmi # bmi_values) c =
     py_if (py_lt bmi (VFloat (Finite (37 / 2))))
       (bmi_categories_values_loop bmi_values (c\<lparr>bmi_under := bmi_under c + 1\<rparr>))
    (py_if (py_and (py_le (VFloat (Finite (37 / 2))) bmi) (py_lt bmi (VInt 25)))
       (bmi_categories_values_loop bmi_values (c\<lparr>bmi_normal := bmi_normal c + 1\<rparr>))
    (py_if (py_and (py_le (VInt 25) bmi) (py_lt bmi (VInt 30)))
       (bmi_categories_values_loop bmi_values (c\<lparr>bmi_over := bmi_over c + 1\<rparr>))
       (bmi_categories_values_loop bmi_values (c\<lparr>bmi_obese := bmi_obese c + 1\<rparr>))))"

definition analyze_bmi_categories_values :: "pyvalue list \<Rightarrow> error + bmi_categories" where
  "analyze_bmi_categories_values bmi_values =
     bmi_categories_values_loop bmi_values bmi_categories_init"

fun bp_categories_values_loop ::
  "(pyvalue \<times> pyvalue) list \<Rightarrow> bp_categories \<Rightarrow> error + bp_categories" where
  "bp_categories_values_loop [] c = Inr c"
| "bp_categories_values_loop ((systolic, diastolic) # bp_data) c =
     py_if (py_and (py_lt systolic (VInt 120)) (py_lt diastolic (VInt 80)))
       (bp_categories_values_loop bp_data (c\<lparr>bp_normal := bp_normal c + 1\<rparr>))
    (py_if (py_and (py_and (py_le (VInt 120) systolic) (py_lt systolic (VInt 130)))
                   (py_lt diastolic (VInt 80)))
       (bp_categories_values_loop bp_data (c\<lparr>bp_elevated := bp_elevated c + 1\<rparr>))
    (py_if (py_or (py_and (py_le (VInt 130) systolic) (py_lt systolic (VInt 140)))
                  (py_and (py_le (VInt 80) diastolic) (py_lt diastolic (VInt 90))))
       (bp_categories_values_loop bp_data (c\<lparr>bp_stage1 := bp_stage1 c + 1\<rparr>))
       (bp_categories_values_loop bp_data (c\<lparr>bp_stage2 := bp_stage2 c + 1\<rparr>))))"

definition analyze_bp_categories_values ::
  "(pyvalue \<times> pyvalue) list \<Rightarrow> error + bp_categories" where
  "analyze_bp_categories_values bp_data = bp_categories_values_loop bp_data bp_categories_init"

subsection \<open>The builtins and the statistics module\<close>

text \<open>
  \<open>min\<close> and \<open>max\<close> keep the first extremal element, as the builtins do.
\<close>

fun min_loop :: "pyvalue \<Rightarrow> pyvalue list \<Rightarrow> pyvalue" where
  "min_loop m [] = m"
| "min_loop m (x # xs) = min_loop (if num_lt x m then x else m) xs"

fun max_loop :: "pyvalue \<Rightarrow> pyvalue list \<Rightarrow> pyvalue" where
  "max_loop m [] = m"
| "max_loop m (x # xs) = max_loop (if num_lt m x then x else m) xs"

definition py_min :: "pyvalue list \<Rightarrow> error + pyvalue" where
  "py_min xs =
     (case xs of [] \<Rightarrow> Inl ValueError
      | x # rest \<Rightarrow> if list_all is_number xs then Inr (min_loop x rest) else Inl TypeError)"

definition py_max :: "pyvalue list \<Rightarrow> error + pyvalue" where
  "py_max xs =
     (case xs of [] \<Rightarrow> Inl ValueError
      | x # rest \<Rightarrow> if list_all is_number xs then Inr (max_loop x rest) else Inl TypeError)"

text \<open>
  The arithmetic of \<open>statistics.mean\<close>, \<open>statistics.median\<close>, \<open>statistics.stdev\<close> and
  of \<open>round\<close> is library code on floating-point numbers; it is a parameter of the model.
  On numbers the arithmetic returns its result or fails with an exception of its own:
  \<open>OverflowError\<close> for an \<open>int\<close> too large for a \<open>float\<close>, \<open>AttributeError\<close> for
  the standard deviation of data with an infinity or a \<open>nan\<close>. What the model fixes is
  when the library raises before any arithmetic: \<open>StatisticsError\<close> for \<open>mean\<close> and
  \<open>median\<close> of no data and for \<open>stdev\<close> of fewer than two data points, \<open>TypeError\<close>
  for data that are not numbers. \<open>round\<close> is only applied to what these functions,
  \<open>min\<close> and \<open>max\<close> return, which are numbers: it does not raise.
\<close>

datatype arithmetic_error = Overflow | Attribute

fun lib_error :: "arithmetic_error \<Rightarrow> error" where
  "lib_error Overflow = OverflowError"
| "lib_error Attribute = AttributeError"

record stat_lib =
  lib_mean :: "pyvalue list \<Rightarrow> arithmetic_error + pyvalue"
  lib_median :: "pyvalue list \<Rightarrow> arithmetic_error + pyvalue"
  lib_stdev :: "pyvalue list \<Rightarrow> arithmetic_error + pyvalue"
  lib_round :: "pyvalue \<Rightarrow> nat \<Rightarrow> pyvalue"

definition lib_call :: "arithmetic_error + pyvalue \<Rightarrow> error + pyvalue" where
  "lib_call r = (case r of Inl f \<Rightarrow> Inl (lib_error f) | Inr v \<Rightarrow> Inr v)"

definition statistics_mean :: "stat_lib \<Rightarrow> pyvalue list \<Rightarrow> error + pyvalue" where
  "statistics_mean lib xs =
     (if xs = [] then Inl StatisticsError
      else if list_all is_number xs then lib_call (lib_mean lib xs) else Inl TypeError)"

definition statistics_median :: "stat_lib \<Rightarrow> pyvalue list \<Rightarrow> error + pyvalue" where
  "statistics_median lib xs =
     (if xs = [] then Inl StatisticsError
      else if list_all is_number xs then lib_call (lib_median lib xs) else Inl TypeError)"

definition statistics_stdev :: "stat_lib \<Rightarrow> pyvalue list \<Rightarrow> error + pyvalue" where
  "statistics_stdev lib xs =
     (if length xs < 2 then Inl StatisticsError
      else if list_all is_number xs then lib_call (lib_stdev lib xs) else Inl TypeError)"

text \<open>
  \<open>collections.Counter\<close> over a list, as the dict it is turned into: keys in the order
  they are first seen, each key the value first seen for it. Two values are one key
  when they are equal: strings when they are the same string, numbers when they have the
  same value, so that 1 and 1.0 are one key, and a \<open>nan\<close> that was read on its own is
  equal to no other value. A list is not hashable.
\<close>

definition same_key :: "pyvalue \<Rightarrow> pyvalue \<Rightarrow> bool" where
  "same_key x y =
     (case (num_of x, num_of y) of
        (Some a, Some b) \<Rightarrow> a = b \<and> a \<noteq> NaN
      | (None, None) \<Rightarrow> x = y
      | _ \<Rightarrow> False)"

fun counter_add :: "('a \<Rightarrow> 'a \<Rightarrow> bool) \<Rightarrow> 'a \<Rightarrow> ('a \<times> nat) list \<Rightarrow> ('a \<times> nat) list" where
  "counter_add eq x [] = [(x, 1)]"
| "counter_add eq x ((k, c) # kcs) =
     (if eq k x then (k, c + 1) # kcs else (k, c) # counter_add eq x kcs)"

fun counter_loop ::
  "('a \<Rightarrow> 'a \<Rightarrow> bool) \<Rightarrow> 'a list \<Rightarrow> ('a \<times> nat) list \<Rightarrow> ('a \<times> nat) list" where
  "counter_loop eq [] acc = acc"
| "counter_loop eq (x # xs) acc = counter_loop eq xs (counter_add eq x acc)"

text \<open>\<open>Counter\<close> over strings.\<close>

definition Counter :: "pystr list \<Rightarrow> (pystr \<times> nat) list" where
  "Counter xs = counter_loop (=) xs []"

fun hashable :: "pyvalue \<Rightarrow> bool" where
  "hashable (VList xs) = False"
| "hashable v = True"

text \<open>\<open>Counter\<close> over the values of a column.\<close>

definition counter_of_values :: "pyvalue list \<Rightarrow> error + (pyvalue \<times> nat) list" where
  "counter_of_values vs =
     (if list_all hashable vs then Inr (counter_loop same_key vs []) else Inl TypeError)"

subsection \<open>analyze_demographics\<close>

text \<open>\<open>[row[k] for row in self.data if k in row]\<close>\<close>

definition column :: "string \<Rightarrow> row list \<Rightarrow> pyvalue list" where
  "column k data = List.map_filter (\<lambda>row. row k) data"

record age_statistics =
  age_mean :: pyvalue
  age_median :: pyvalue
  age_min :: pyvalue
  age_max :: pyvalue
  age_stdev :: pyvalue

record demographics =
  total_count :: nat
  age_stats :: age_statistics
  gender_distribution :: "(pyvalue \<times> nat) list"
  blood_type_distribution :: "(pyvalue \<times> nat) list"
  age_grouping :: age_groups

text \<open>
  A function of the analyzer that returns the empty dict \<open>{}\<close> on no data returns
  \<open>None\<close> here, and \<open>Some\<close> of its record of results otherwise.
\<close>

definition analyze_demographics :: "stat_lib \<Rightarrow> row list \<Rightarrow> error + demographics option" where
  "analyze_demographics lib data =
     (if data = [] then Inr None
      else
        let ages = column ''age'' data;
            genders = column ''gender'' data;
            blood_types = column ''blood_type'' data
        in
        ebind (if ages \<noteq> [] then ebind (statistics_mean lib ages) (\<lambda>m. Inr (lib_round lib m 1))
               else Inr (VInt 0)) (\<lambda>mean.
        ebind (if ages \<noteq> [] then ebind (statistics_median lib ages) (\<lambda>m. Inr (lib_round lib m 1))
               else Inr (VInt 0)) (\<lambda>median.
        ebind (if ages \<noteq> [] then py_min ages else Inr (VInt 0)) (\<lambda>lo.
        ebind (if ages \<noteq> [] then py_max ages else Inr (VInt 0)) (\<lambda>hi.
        ebind (if length ages > 1 then ebind (statistics_stdev lib ages) (\<lambda>s. Inr (lib_round lib s 1))
               else Inr (VInt 0)) (\<lambda>sd.
        ebind (counter_of_values genders) (\<lambda>gender_counts.
        ebind (counter_of_values blood_types) (\<lambda>blood_counts.
        ebind (analyze_age_groups_values ages) (\<lambda>groups.
        Inr (Some \<lparr>total_count = length data,
                   age_stats = \<lparr>age_mean = mean, age_median = median, age_min = lo,
                                age_max = hi, age_stdev = sd\<rparr>,
                   gender_distribution = gender_counts,
                   blood_type_distribution = blood_counts,
                   age_grouping = groups\<rparr>))))))))))"

subsection \<open>analyze_health_metrics\<close>

definition metrics :: "string list" where
  "metrics = [''bmi'', ''blood_pressure_systolic'', ''blood_pressure_diastolic'',
              ''heart_rate'', ''body_temperature'', ''blood_sugar'', ''cholesterol'']"

text \<open>\<open>[row[metric] for row in self.data if metric in row and row[metric]]\<close>\<close>

definition metric_values :: "string \<Rightarrow> row list \<Rightarrow> pyvalue list" where
  "metric_values metric data = filter truthy (column metric data)"

record metric_statistics =
  m_mean :: pyvalue
  m_median :: pyvalue
  m_min :: pyvalue
  m_max :: pyvalue
  m_stdev :: pyvalue

text \<open>
  The body of the loop over the metrics for one list of values: \<open>None\<close> when the list is
  empty and no key is added to the analysis, the five statistics otherwise.
\<close>

definition metric_entry :: "stat_lib \<Rightarrow> pyvalue list \<Rightarrow> error + metric_statistics option" where
  "metric_entry lib values =
     (if values = [] then Inr None
      else
        ebind (ebind (statistics_mean lib values) (\<lambda>m. Inr (lib_round lib m 2))) (\<lambda>mean.
        ebind (ebind (statistics_median lib values) (\<lambda>m. Inr (lib_round lib m 2))) (\<lambda>median.
        ebind (ebind (py_min values) (\<lambda>m. Inr (lib_round lib m 2))) (\<lambda>lo.
        ebind (ebind (py_max values) (\<lambda>m. Inr (lib_round lib m 2))) (\<lambda>hi.
        ebind (if length values > 1
               then ebind (statistics_stdev lib values) (\<lambda>s. Inr (lib_round lib s 2))
               else Inr (VInt 0)) (\<lambda>sd.
        Inr (Some \<lparr>m_mean = mean, m_median = median, m_min = lo, m_max = hi,
                   m_stdev = sd\<rparr>)))))))"

fun metrics_loop ::
  "stat_lib \<Rightarrow> row list \<Rightarrow> string list \<Rightarrow> (string \<times> metric_statistics) list
     \<Rightarrow> error + (string \<times> metric_statistics) list" where
  "metrics_loop lib data [] analysis = Inr analysis"
| "metrics_loop lib data (metric # rest) analysis =
     ebind (metric_entry lib (metric_values metric data)) (\<lambda>entry.
       metrics_loop lib data rest
         (case entry of None \<Rightarrow> analysis | Some st \<Rightarrow> analysis @ [(metric, st)]))"

text \<open>
  \<open>[(row[s], row[d]) for row in self.data if s in row and d in row]\<close> for the two
  blood-pressure keys.
\<close>

definition bp_pairs :: "row list \<Rightarrow> (pyvalue \<times> pyvalue) list" where
  "bp_pairs data =
     List.map_filter
       (\<lambda>row. case (row ''blood_pressure_systolic'', row ''blood_pressure_diastolic'') of
                 (Some s, Some d) \<Rightarrow> Some (s, d)
               | _ \<Rightarrow> None) data"

record health_analysis =
  metric_stats :: "(string \<times> metric_statistics) list"
  bmi_cats :: bmi_categories
  bp_cats :: bp_categories

definition analyze_health_metrics :: "stat_lib \<Rightarrow> row list \<Rightarrow> error + health_analysis option" where
  "analyze_health_metrics lib data =
     (if data = [] then Inr None
      else
        ebind (metrics_loop lib data metrics []) (\<lambda>analysis.
        ebind (analyze_bmi_categories_values (metric_values ''bmi'' data)) (\<lambda>bmi_counts.
        ebind (analyze_bp_categories_values (bp_pairs data)) (\<lambda>bp_counts.
        Inr (Some \<lparr>metric_stats = analysis,
                   bmi_cats = bmi_counts,
                   bp_cats = bp_counts\<rparr>)))))"

subsection \<open>analyze_medical_history\<close>

text \<open>
  \<open>str.split(';')\<close> and \<open>str.strip()\<close>. The white space \<open>strip\<close> removes is the set of
  code points for which \<open>str.isspace\<close> holds.
\<close>

fun py_split :: "int \<Rightarrow> pystr \<Rightarrow> pystr list" where
  "py_split sep [] = [[]]"
| "py_split sep (c # cs) =
     (if c = sep then [] # py_split sep cs
      else (case py_split sep cs of [] \<Rightarrow> [[c]] | p # ps \<Rightarrow> (c # p) # ps))"

definition py_isspace :: "int \<Rightarrow> bool" where
  "py_isspace c =
     ((9 \<le> c \<and> c \<le> 13) \<or> (28 \<le> c \<and> c \<le> 32) \<or> c = 133 \<or> c = 160 \<or> c = 5760
      \<or> (8192 \<le> c \<and> c \<le> 8202) \<or> c = 8232 \<or> c = 8233 \<or> c = 8239 \<or> c = 8287
      \<or> c = 12288)"

definition py_strip :: "pystr \<Rightarrow> pystr" where
  "py_strip s = rev (dropWhile py_isspace (rev (dropWhile py_isspace s)))"

text \<open>\<open>[a.strip() for a in s.split(';') if a.strip()]\<close>\<close>

definition split_items :: "pystr \<Rightarrow> pystr list" where
  "split_items s = filter (\<lambda>a. a \<noteq> []) (map py_strip (py_split 59 s))"

text \<open>
  The items one truthy field value adds to the running list: the split text for a \<open>str\<close>,
  the list itself otherwise; \<open>list.extend\<close> of a number raises \<open>TypeError\<close>.
\<close>

fun history_items :: "pyvalue \<Rightarrow> error + pystr list" where
  "history_items (VStr s) = Inr (split_items s)"
| "history_items (VList xs) = Inr xs"
| "history_items v = Inl TypeError"

fun history_loop :: "string \<Rightarrow> row list \<Rightarrow> pystr list \<Rightarrow> error + pystr list" where
  "history_loop key [] acc = Inr acc"
| "history_loop key (row # data) acc =
     (case row key of
        None \<Rightarrow> history_loop key data acc
      | Some v \<Rightarrow>
          if truthy v
          then ebind (history_items v) (\<lambda>items. history_loop key data (acc @ items))
          else history_loop key data acc)"

record medical_analysis =
  allergy_stats :: "(pystr \<times> nat) list"
  disease_stats :: "(pystr \<times> nat) list"
  medication_stats :: "(pystr \<times> nat) list"
  allergy_total :: nat
  disease_total :: nat
  medication_total :: nat

definition analyze_medical_history :: "row list \<Rightarrow> error + medical_analysis option" where
  "analyze_medical_history data =
     (if data = [] then Inr None
      else
        ebind (history_loop ''allergies'' data []) (\<lambda>all_allergies.
        ebind (history_loop ''chronic_diseases'' data []) (\<lambda>all_diseases.
        ebind (history_loop ''medications'' data []) (\<lambda>all_medications.
        Inr (Some \<lparr>allergy_stats = Counter all_allergies,
                   disease_stats = Counter all_diseases,
                   medication_stats = Counter all_medications,
                   allergy_total = length all_allergies,
                   disease_total = length all_diseases,
                   medication_total = length all_medications\<rparr>)))))"

subsection \<open>generate_report\<close>

text \<open>
  The report is a text built line by line. Each line is kept as the f-string that
  produces it, with the values it interpolates; the formatting of numbers into text is
  not modelled. The "no data to analyse" text the function returns on no data is a
  value of its own.
\<close>

datatype age_label = A18_30 | A31_45 | A46_60 | A61_75 | A76_up

datatype bmi_label = Underweight | Normal_weight | Overweight | Obese

datatype report_line =
    Rule_equals | Rule_dashes | Blank_line | Title_line | Closing_line
  | Demographics_heading | Total_line nat
  | Mean_age_line pyvalue | Age_range_line pyvalue pyvalue
  | Gender_heading | Gender_line pyvalue nat rat
  | Age_groups_heading | Age_group_line age_label nat rat
  | Health_heading | Metric_heading string
  | Metric_mean_line pyvalue | Metric_range_line pyvalue pyvalue
  | Bmi_heading | Bmi_line bmi_label nat rat
  | Bp_heading | Bp_line bp_bucket nat rat
  | History_heading
  | Allergy_heading | Allergy_line pystr nat
  | Disease_heading | Disease_line pystr nat

datatype report = No_data | Report "report_line list"

text \<open>The \<open>items()\<close> of the three bucket dicts, in the order the keys were inserted.\<close>

definition age_group_items :: "age_groups \<Rightarrow> (age_label \<times> nat) list" where
  "age_group_items g =
     [(A18_30, g18_30 g), (A31_45, g31_45 g), (A46_60, g46_60 g), (A61_75, g61_75 g),
      (A76_up, g76_up g)]"

definition bmi_items :: "bmi_categories \<Rightarrow> (bmi_label \<times> nat) list" where
  "bmi_items c =
     [(Underweight, bmi_under c), (Normal_weight, bmi_normal c), (Overweight, bmi_over c),
      (Obese, bmi_obese c)]"

definition bp_items :: "bp_categories \<Rightarrow> (bp_bucket \<times> nat) list" where
  "bp_items c =
     [(Normal, bp_normal c), (Elevated, bp_elevated c), (Stage1, bp_stage1 c),
      (Stage2, bp_stage2 c)]"

text \<open>\<open>(count / demographics[total]) * 100\<close>: the key must be there and the total not 0.\<close>

definition percentage :: "nat \<Rightarrow> demographics option \<Rightarrow> error + rat" where
  "percentage count demographics =
     (case demographics of
        None \<Rightarrow> Inl KeyError
      | Some d \<Rightarrow>
          if total_count d = 0 then Inl ZeroDivisionError
          else Inr (of_nat count / of_nat (total_count d) * 100))"

definition percent_lines ::
  "('k \<Rightarrow> nat \<Rightarrow> rat \<Rightarrow> report_line) \<Rightarrow> ('k \<times> nat) list \<Rightarrow> demographics option
     \<Rightarrow> error + report_line list" where
  "percent_lines mk items demographics =
     emap (\<lambda>kc. ebind (percentage (snd kc) demographics) (\<lambda>p. Inr (mk (fst kc) (snd kc) p)))
       items"

definition demographics_lines :: "demographics option \<Rightarrow> error + report_line list" where
  "demographics_lines demographics =
     (case demographics of
        None \<Rightarrow> Inr [Demographics_heading, Rule_dashes, Total_line 0, Blank_line]
      | Some d \<Rightarrow>
          ebind (percent_lines Gender_line (gender_distribution d) demographics) (\<lambda>genders.
          ebind (percent_lines Age_group_line (age_group_items (age_grouping d)) demographics)
            (\<lambda>groups.
          Inr ([Demographics_heading, Rule_dashes, Total_line (total_count d),
                Mean_age_line (age_mean (age_stats d)),
                Age_range_line (age_min (age_stats d)) (age_max (age_stats d)),
                Gender_heading] @ genders @ [Age_groups_heading] @ groups @ [Blank_line]))))"

text \<open>
  The loop over \<open>metric_names\<close>, whose keys are the seven metrics in the order of
  \<^const>\<open>metrics\<close>.
\<close>

fun metric_lines :: "string list \<Rightarrow> (string \<times> metric_statistics) list \<Rightarrow> report_line list" where
  "metric_lines [] health = []"
| "metric_lines (metric # rest) health =
     (case map_of health metric of
        None \<Rightarrow> metric_lines rest health
      | Some st \<Rightarrow>
          [Metric_heading metric, Metric_mean_line (m_mean st),
           Metric_range_line (m_min st) (m_max st)] @ metric_lines rest health)"

definition health_lines ::
  "demographics option \<Rightarrow> health_analysis option \<Rightarrow> error + report_line list" where
  "health_lines demographics health =
     (case health of
        None \<Rightarrow> Inr [Health_heading, Rule_dashes, Blank_line]
      | Some h \<Rightarrow>
          ebind (percent_lines Bmi_line (bmi_items (bmi_cats h)) demographics) (\<lambda>bmis.
          ebind (percent_lines Bp_line (bp_items (bp_cats h)) demographics) (\<lambda>bps.
          Inr ([Health_heading, Rule_dashes] @ metric_lines metrics (metric_stats h)
               @ [Bmi_heading] @ bmis @ [Bp_heading] @ bps @ [Blank_line]))))"

text \<open>
  \<open>sorted(d.items(), key=lambda x: x[1], reverse=True)[:5]\<close>: a stable sort by
  descending count, then the first five.
\<close>

definition top5 :: "('k \<times> nat) list \<Rightarrow> ('k \<times> nat) list" where
  "top5 items = take 5 (sort_key (\<lambda>kc. - int (snd kc)) items)"

definition history_lines :: "medical_analysis option \<Rightarrow> report_line list" where
  "history_lines medical =
     (case medical of
        None \<Rightarrow> [History_heading, Rule_dashes, Blank_line]
      | Some m \<Rightarrow>
          [History_heading, Rule_dashes, Allergy_heading]
          @ map (\<lambda>kc. Allergy_line (fst kc) (snd kc)) (top5 (allergy_stats m))
          @ [Disease_heading]
          @ map (\<lambda>kc. Disease_line (fst kc) (snd kc)) (top5 (disease_stats m))
          @ [Blank_line])"

definition generate_report :: "stat_lib \<Rightarrow> row list \<Rightarrow> error + report" where
  "generate_report lib data =
     (if data = [] then Inr No_data
      else
        ebind (analyze_demographics lib data) (\<lambda>demographics.
        ebind (analyze_health_metrics lib data) (\<lambda>health_metrics.
        ebind (analyze_medical_history data) (\<lambda>medical_history.
        ebind (demographics_lines demographics) (\<lambda>part1.
        ebind (health_lines demographics health_metrics) (\<lambda>part2.
        Inr (Report ([Rule_equals, Title_line, Rule_equals, Blank_line] @ part1 @ part2
                     @ history_lines medical_history
                     @ [Rule_equals, Closing_line, Rule_equals]))))))))"

subsection \<open>The records a statistic counts, in the words of the specification\<close>

text \<open>A record has a field when the key is in the row.\<close>

definition has_field :: "string \<Rightarrow> row \<Rightarrow> bool" where
  "has_field k row = (row k \<noteq> None)"

text \<open>A record is included in a metric when the field is present and its value is truthy.\<close>

definition included :: "string \<Rightarrow> row \<Rightarrow> bool" where
  "included k row = (case row k of None \<Rightarrow> False | Some v \<Rightarrow> truthy v)"

text \<open>The sum of the counters of a bucket dict.\<close>

definition age_total :: "age_groups \<Rightarrow> nat" where
  "age_total g = g18_30 g + g31_45 g + g46_60 g + g61_75 g + g76_up g"

definition bmi_total :: "bmi_categories \<Rightarrow> nat" where
  "bmi_total c = bmi_under c + bmi_normal c + bmi_over c + bmi_obese c"

definition bp_total :: "bp_categories \<Rightarrow> nat" where
  "bp_total c = bp_normal c + bp_elevated c + bp_stage1 c + bp_stage2 c"

text \<open>
  An instance of the library parameter, for evaluating the model on concrete rows. It
  holds what the library returns on the data of the examples below: for the three
  values 70, 72, 74 the mean 72, the median 72 and the standard deviation 2.0; for one
  data point the data point as mean and median. It raises elsewhere, and rounding to two
  places changes none of these numbers. Every theorem below holds for every instance.
\<close>

definition example_lib :: stat_lib where
  "example_lib =
     \<lparr>lib_mean = (\<lambda>xs. if xs = [VInt 70, VInt 72, VInt 74] then Inr (VInt 72)
                       else if length xs = 1 then Inr (hd xs) else Inl Overflow),
      lib_median = (\<lambda>xs. if xs = [VInt 70, VInt 72, VInt 74] then Inr (VInt 72)
                         else if length xs = 1 then Inr (hd xs) else Inl Overflow),
      lib_stdev = (\<lambda>xs. if xs = [VInt 70, VInt 72, VInt 74] then Inr (VFloat (Finite 2))
                        else Inl Attribute),
      lib_round = (\<lambda>v ndigits. v)\<rparr>"

section \<open>health_data_generator.py\<close>

subsection \<open>The random module\<close>

text \<open>
  The generator draws from the process-wide random source. The source is modelled by the
  outcomes it is going to produce: a tape of raw integers for \<open>randint\<close>, \<open>choice\<close>,
  \<open>choices\<close> and \<open>sample\<close>, and a tape of floats for \<open>uniform\<close>. Each call
  consumes one outcome and maps it into the range the call asks for, so every result the
  library can return is the result for some tape, and a theorem about every tape is a
  theorem about every run. A tape that is used up yields 0, or the lower bound.

  A computation that draws returns its result, or the exception it raises, and the
  state of the source it leaves behind.
\<close>

record random_state =
  int_tape :: "nat list"
  float_tape :: "pyfloat list"

type_synonym 'a gen = "random_state \<Rightarrow> (error + 'a) \<times> random_state"

definition greturn :: "'a \<Rightarrow> 'a gen" where
  "greturn x st = (Inr x, st)"

definition graise :: "error \<Rightarrow> 'a gen" where
  "graise e st = (Inl e, st)"

definition gbind :: "'a gen \<Rightarrow> ('a \<Rightarrow> 'b gen) \<Rightarrow> 'b gen" where
  "gbind m f st = (case m st of (Inl e, st') \<Rightarrow> (Inl e, st') | (Inr x, st') \<Rightarrow> f x st')"

definition next_int :: "nat gen" where
  "next_int st =
     (case int_tape st of [] \<Rightarrow> (Inr 0, st) | n # ns \<Rightarrow> (Inr n, st\<lparr>int_tape := ns\<rparr>))"

definition randint :: "int \<Rightarrow> int \<Rightarrow> int gen" where
  "randint a b =
     (if b < a then graise ValueError
      else gbind next_int (\<lambda>n. greturn (a + int n mod (b - a + 1))))"

definition choice :: "'a list \<Rightarrow> 'a gen" where
  "choice xs =
     (if xs = [] then graise IndexError
      else gbind next_int (\<lambda>n. greturn (xs ! (n mod length xs))))"

text \<open>\<open>[f() for _ in range(k)]\<close>\<close>

fun greplicate :: "nat \<Rightarrow> 'a gen \<Rightarrow> 'a list gen" where
  "greplicate 0 m = greturn []"
| "greplicate (Suc k) m = gbind m (\<lambda>x. gbind (greplicate k m) (\<lambda>xs. greturn (x # xs)))"

text \<open>\<open>random.choices(xs, k=k)\<close>: \<open>k\<close> draws with replacement.\<close>

definition choices :: "'a list \<Rightarrow> nat \<Rightarrow> 'a list gen" where
  "choices xs k = greplicate k (choice xs)"

text \<open>
  \<open>random.sample(xs, k)\<close>: \<open>k\<close> draws without replacement, by position; it raises
  \<open>ValueError\<close> when the sample is larger than the population.
\<close>

fun sample_loop :: "'a list \<Rightarrow> nat \<Rightarrow> 'a list gen" where
  "sample_loop xs 0 = greturn []"
| "sample_loop xs (Suc k) =
     gbind next_int (\<lambda>n.
       let i = n mod length xs in
       gbind (sample_loop (take i xs @ drop (Suc i) xs) k) (\<lambda>rest. greturn (xs ! i # rest)))"

definition sample :: "'a list \<Rightarrow> nat \<Rightarrow> 'a list gen" where
  "sample xs k = (if length xs < k then graise ValueError else sample_loop xs k)"

definition uniform :: "pyfloat \<Rightarrow> pyfloat \<Rightarrow> pyfloat gen" where
  "uniform a b st =
     (case float_tape st of
        [] \<Rightarrow> (Inr a, st)
      | x # xs \<Rightarrow> (Inr (if fle a x \<and> fle x b then x else a), st\<lparr>float_tape := xs\<rparr>))"

subsection \<open>Floating-point arithmetic and text\<close>

text \<open>
  The arithmetic of floats, with its rounding, is a parameter of the model, as is
  \<open>round(x, ndigits)\<close>. A power of a float that is out of range and the conversion
  of an \<open>int\<close> too large for a float raise \<open>OverflowError\<close>: there the parameter
  gives \<open>None\<close>. What the model fixes is that a true division by zero raises.
\<close>

record float_ops =
  fadd :: "pyfloat \<Rightarrow> pyfloat \<Rightarrow> pyfloat"
  fmul :: "pyfloat \<Rightarrow> pyfloat \<Rightarrow> pyfloat"
  fdiv :: "pyfloat \<Rightarrow> pyfloat \<Rightarrow> pyfloat"
  fpow :: "pyfloat \<Rightarrow> nat \<Rightarrow> pyfloat option"
  fround :: "pyfloat \<Rightarrow> nat \<Rightarrow> pyfloat"
  ffloat :: "int \<Rightarrow> pyfloat option"

definition py_truediv :: "float_ops \<Rightarrow> pyfloat \<Rightarrow> pyfloat \<Rightarrow> error + pyfloat" where
  "py_truediv ops a b = (if b = Finite 0 then Inl ZeroDivisionError else Inr (fdiv ops a b))"

definition py_pow :: "float_ops \<Rightarrow> pyfloat \<Rightarrow> nat \<Rightarrow> error + pyfloat" where
  "py_pow ops a n = (case fpow ops a n of None \<Rightarrow> Inl OverflowError | Some p \<Rightarrow> Inr p)"

definition py_float :: "float_ops \<Rightarrow> int \<Rightarrow> error + pyfloat" where
  "py_float ops i = (case ffloat ops i of None \<Rightarrow> Inl OverflowError | Some x \<Rightarrow> Inr x)"

text \<open>An ASCII literal of the source as a \<open>str\<close>.\<close>

definition ascii :: "string \<Rightarrow> pystr" where
  "ascii s = map of_char s"

text \<open>\<open>str(n)\<close> for an \<open>int\<close>: its decimal digits, after a minus sign when negative.\<close>

fun digits_of :: "nat \<Rightarrow> pystr" where
  "digits_of n =
     (if n < 10 then [48 + int n] else digits_of (n div 10) @ [48 + int (n mod 10)])"

declare digits_of.simps [simp del]

definition str_int :: "int \<Rightarrow> pystr" where
  "str_int i = (if i < 0 then 45 # digits_of (nat (- i)) else digits_of (nat i))"

text \<open>\<open>sep.join(xs)\<close>\<close>

fun py_join :: "pystr \<Rightarrow> pystr list \<Rightarrow> pystr" where
  "py_join sep [] = []"
| "py_join sep [x] = x"
| "py_join sep (x # y # ys) = x @ sep @ py_join sep (y # ys)"

subsection \<open>The data model\<close>

record PersonalInfo =
  name :: pystr
  age :: int
  gender :: pystr
  height :: pyfloat
  weight :: pyfloat
  blood_type :: pystr
  phone :: pystr
  email :: pystr
  address :: pystr
  emergency_contact :: pystr
  id_number :: pystr

record HealthMetrics =
  bmi :: pyfloat
  blood_pressure_systolic :: int
  blood_pressure_diastolic :: int
  heart_rate :: int
  body_temperature :: pyfloat
  blood_sugar :: pyfloat
  cholesterol :: pyfloat
  created_date :: pystr

record MedicalHistory =
  allergies :: "pystr list"
  chronic_diseases :: "pystr list"
  medications :: "pystr list"
  surgeries :: "pystr list"
  family_history :: "pystr list"

subsection \<open>The value pools of \<open>_init_data_sources\<close>\<close>

text \<open>
  The pools are lists of strings, each string given by its code points. The five pools
  that share their name with a field of \<open>MedicalHistory\<close> carry the suffix \<open>_pool\<close>.
\<close>

definition surnames :: "pystr list" where
  "surnames =
    [[36249], [37666], [23403], [26446], [36913], [21555], [37165], [29579], [39342],
     [38515], [35098], [34907], [34083], [27784], [38867], [26954], [26417], [31206],
     [23588], [35377], [20309], [21570], [26045], [24373], [23380], [26361], [22196],
     [33775], [37329], [39759], [38518], [23004], [25114], [35613], [37138], [21947],
     [26575], [27700], [31431], [31456], [38642], [34311], [28504], [33883], [22874],
     [31684], [24429], [37070], [39791], [38859], [26124], [39340], [33495], [40179],
     [33457], [26041], [20446], [20219], [34945], [26611], [37190], [39825], [21490],
     [21776], [36027], [24265], [23697], [34203], [38647], [36032], [20522], [28271]]"

definition given_names :: "pystr list" where
  "given_names =
    [[23478], [29640], [35997], [26976], [24076], [36763], [28481], [33521], [25964],
     [33707], [32676], [28023], [28210], [20818], [33287], [37347], [24609], [33406],
     [38634], [23433], [24859], [26360], [29275], [26032], [23159], [37946], [22937],
     [26228], [33910], [27489], [32650], [23068], [28703], [22887], [26411], [22478],
     [22294], [26143], [22825], [25935], [37528], [21531], [35946], [20553], [28982],
     [36562], [33841], [28085], [32724], [24311], [24681], [36784], [30591], [23431],
     [22925], [24420], [22948], [35486], [32186], [20448], [39131], [19969], [23527],
     [40670], [24428], [20625], [32654], [21486], [29066], [33495], [26481], [22855],
     [23542], [21487], [26234], [36920], [20581], [31558], [19971], [35029], [20355],
     [31119], [23888], [22805], [21338], [27054], [21746], [20315], [38463], [30355],
     [36637], [28156], [29734], [26391], [26114], [26376], [22165], [36093], [32005],
     [39171], [23736], [25289], [26000], [20445], [28635], [38597], [24535], [28009],
     [23376], [26771], [35433], [23461], [25215], [21697], [23480], [26575], [35424],
     [32701], [31161], [33455], [24605]]"

definition blood_types :: "pystr list" where
  "blood_types =
    [[65], [66], [65, 66], [79]]"

definition genders :: "pystr list" where
  "genders =
    [[30007], [22899]]"

definition allergies_pool :: "pystr list" where
  "allergies_pool =
    [[33457, 31881], [22645, 34766], [28023, 39854], [22533, 26524], [29275, 22902],
     [38622, 34507], [22823, 35910], [23567, 40613], [34277, 29289, 36942, 25935],
     [21205, 29289, 27611, 39662], [21270, 23416, 29289, 36074],
     [28961, 24050, 30693, 36942, 25935]]"

definition chronic_diseases_pool :: "pystr list" where
  "chronic_diseases_pool =
    [[39640, 34880, 22739], [31958, 23615, 30149], [39640, 34880, 33026],
     [24515, 33247, 30149], [27683, 21912], [38364, 31680, 28814],
     [30002, 29376, 33146, 30142, 30149], [33102, 33247, 30149], [32925, 30149],
     [28961, 24930, 24615, 30142, 30149]]"

definition medications_pool :: "pystr list" where
  "medications_pool =
    [[38477, 34880, 22739, 34277], [38477, 34880, 31958, 34277],
     [38477, 34880, 33026, 34277], [24515, 33247, 34277], [27683, 21912, 34277],
     [27490, 30171, 34277], [32173, 29983, 32032], [37411, 29255], [39770, 27833],
     [28961, 26381, 29992, 34277, 29289]]"

definition surgeries_pool :: "pystr list" where
  "surgeries_pool =
    [[38348, 23614, 20999, 38500], [33213, 22218, 20999, 38500],
     [30333, 20839, 38556, 25163, 34899], [39592, 25240, 25163, 34899],
     [24515, 33247, 25163, 34899], [33131, 30244, 20999, 38500],
     [30109, 27683, 20462, 35036], [28961, 25163, 34899, 21490]]"

definition family_history_pool :: "pystr list" where
  "family_history_pool =
    [[39640, 34880, 22739], [31958, 23615, 30149], [24515, 33247, 30149], [30284, 30151],
     [20013, 39080], [33102, 33247, 30149], [31934, 31070, 30142, 30149],
     [36986, 20659, 24615, 30142, 30149], [28961, 23478, 26063, 30149, 21490]]"

definition addresses :: "pystr list" where
  "addresses =
    [[21488, 21271, 24066, 20449, 32681, 21312],
     [21488, 21271, 24066, 22823, 23433, 21312],
     [21488, 21271, 24066, 20013, 23665, 21312],
     [21488, 21271, 24066, 26494, 23665, 21312],
     [26032, 21271, 24066, 26495, 27211, 21312],
     [26032, 21271, 24066, 26032, 33674, 21312],
     [26032, 21271, 24066, 20013, 21644, 21312],
     [26032, 21271, 24066, 27704, 21644, 21312],
     [26691, 22290, 24066, 26691, 22290, 21312],
     [26691, 22290, 24066, 20013, 22754, 21312],
     [21488, 20013, 24066, 35199, 23663, 21312],
     [21488, 20013, 24066, 21271, 23663, 21312], [21488, 21335, 24066, 26481, 21312],
     [21488, 21335, 24066, 21271, 21312], [39640, 38596, 24066, 24038, 29151, 21312],
     [39640, 38596, 24066, 19977, 27665, 21312]]"


subsection \<open>The generator\<close>

definition generate_name :: "pystr gen" where
  "generate_name =
     gbind (choice surnames) (\<lambda>surname.
     gbind (choice [1, 2]) (\<lambda>name_length.
     gbind (choices given_names name_length) (\<lambda>given.
     greturn (surname @ concat given))))"

definition generate_phone :: "pystr gen" where
  "generate_phone =
     gbind (choice [ascii ''09'']) (\<lambda>prefix.
     gbind (greplicate 8 (gbind (randint 0 9) (\<lambda>d. greturn (str_int d)))) (\<lambda>number.
     greturn (prefix @ concat number)))"

definition generate_email :: "pystr \<Rightarrow> pystr gen" where
  "generate_email nm =
     gbind (randint 1000 9999) (\<lambda>n.
     gbind (choice [ascii ''gmail.com'', ascii ''yahoo.com.tw'', ascii ''hotmail.com'',
                    ascii ''outlook.com'']) (\<lambda>domain.
     greturn ((ascii ''user'' @ str_int n) @ ascii ''@'' @ domain)))"

definition generate_id_number :: "pystr gen" where
  "generate_id_number =
     gbind (choice (ascii ''ABCDEFGHIJKLMNOPQRSTUVWXYZ'')) (\<lambda>first_letter.
     gbind (choice [1, 2]) (\<lambda>gender_digit.
     gbind (greplicate 7 (gbind (randint 0 9) (\<lambda>d. greturn (str_int d)))) (\<lambda>numbers.
     greturn (first_letter # str_int gender_digit @ concat numbers))))"

definition calculate_bmi :: "float_ops \<Rightarrow> pyfloat \<Rightarrow> pyfloat \<Rightarrow> error + pyfloat" where
  "calculate_bmi ops hgt wgt =
     ebind (py_truediv ops hgt (Finite 100)) (\<lambda>height_m.
     ebind (py_pow ops height_m 2) (\<lambda>square.
     ebind (py_truediv ops wgt square) (\<lambda>q.
     Inr (fround ops q 2))))"

definition generate_personal_info :: "float_ops \<Rightarrow> PersonalInfo gen" where
  "generate_personal_info ops =
     gbind generate_name (\<lambda>nm.
     gbind (randint 18 80) (\<lambda>ag.
     gbind (choice genders) (\<lambda>gnd.
     gbind (if gnd = [30007] then uniform (Finite 160) (Finite 185)
            else uniform (Finite 150) (Finite 175)) (\<lambda>hgt.
     gbind (if gnd = [30007] then uniform (Finite 55) (Finite 90)
            else uniform (Finite 45) (Finite 75)) (\<lambda>wgt.
     gbind (choice blood_types) (\<lambda>bt.
     gbind generate_phone (\<lambda>ph.
     gbind (generate_email nm) (\<lambda>em.
     gbind (choice addresses) (\<lambda>ad.
     gbind generate_phone (\<lambda>ec.
     gbind generate_id_number (\<lambda>idn.
     greturn \<lparr>name = nm, age = ag, gender = gnd, height = fround ops hgt 1,
              weight = fround ops wgt 1, blood_type = bt, phone = ph, email = em,
              address = ad, emergency_contact = ec, id_number = idn\<rparr>)))))))))))"

text \<open>
  The float literal \<open>0.01\<close> is the double 5764607523034235 / 2^59. The time stamp
  \<open>datetime.now().strftime(...)\<close> is the parameter \<open>now\<close>.
\<close>

definition generate_health_metrics ::
  "float_ops \<Rightarrow> pystr \<Rightarrow> PersonalInfo \<Rightarrow> HealthMetrics gen" where
  "generate_health_metrics ops now person =
     (case calculate_bmi ops (height person) (weight person) of
        Inl e \<Rightarrow> graise e
      | Inr b \<Rightarrow>
     (case py_float ops (age person - 30) of
        Inl e \<Rightarrow> graise e
      | Inr years \<Rightarrow>
          let age_factor =
            fadd ops (Finite 1)
              (fmul ops years (Finite (5764607523034235 / 576460752303423488)))
          in
          gbind (randint 110 140) (\<lambda>systolic.
          gbind (randint 70 90) (\<lambda>diastolic.
          gbind (randint 60 100) (\<lambda>hr.
          gbind (uniform (Finite 36) (Finite (75 / 2))) (\<lambda>temp.
          gbind (uniform (Finite 80) (Finite 120)) (\<lambda>sugar.
          gbind (uniform (Finite 150) (Finite 250)) (\<lambda>chol.
          greturn \<lparr>bmi = b, blood_pressure_systolic = systolic,
                   blood_pressure_diastolic = diastolic, heart_rate = hr,
                   body_temperature = fround ops temp 1,
                   blood_sugar = fround ops (fmul ops sugar age_factor) 1,
                   cholesterol = fround ops (fmul ops chol age_factor) 1,
                   created_date = now\<rparr>))))))))"

definition generate_medical_history :: "MedicalHistory gen" where
  "generate_medical_history =
     gbind (randint 0 3) (\<lambda>k1. gbind (sample allergies_pool (nat k1)) (\<lambda>al.
     gbind (randint 0 2) (\<lambda>k2. gbind (sample chronic_diseases_pool (nat k2)) (\<lambda>cd.
     gbind (randint 0 3) (\<lambda>k3. gbind (sample medications_pool (nat k3)) (\<lambda>md.
     gbind (randint 0 2) (\<lambda>k4. gbind (sample surgeries_pool (nat k4)) (\<lambda>su.
     gbind (randint 0 3) (\<lambda>k5. gbind (sample family_history_pool (nat k5)) (\<lambda>fh.
     greturn \<lparr>allergies = al, chronic_diseases = cd, medications = md, surgeries = su,
              family_history = fh\<rparr>))))))))))"

subsection \<open>generate_batch_data\<close>

text \<open>
  A dict with string keys is the list of its items in insertion order. \<open>asdict\<close> lists
  the fields of a dataclass in the order they are declared, and \<open>{**a, **b}\<close> sets the
  items of \<open>b\<close> in \<open>a\<close>, one after the other.
\<close>

type_synonym pydict = "(string \<times> pyvalue) list"

fun dict_set :: "string \<Rightarrow> 'v \<Rightarrow> (string \<times> 'v) list \<Rightarrow> (string \<times> 'v) list" where
  "dict_set k v [] = [(k, v)]"
| "dict_set k v ((k', v') # items) =
     (if k' = k then (k, v) # items else (k', v') # dict_set k v items)"

fun dict_merge :: "(string \<times> 'v) list \<Rightarrow> (string \<times> 'v) list \<Rightarrow> (string \<times> 'v) list" where
  "dict_merge a [] = a"
| "dict_merge a ((k, v) # items) = dict_merge (dict_set k v a) items"

definition asdict_person :: "PersonalInfo \<Rightarrow> pydict" where
  "asdict_person p =
     [(''name'', VStr (name p)), (''age'', VInt (age p)), (''gender'', VStr (gender p)),
      (''height'', VFloat (height p)), (''weight'', VFloat (weight p)),
      (''blood_type'', VStr (blood_type p)), (''phone'', VStr (phone p)),
      (''email'', VStr (email p)), (''address'', VStr (address p)),
      (''emergency_contact'', VStr (emergency_contact p)),
      (''id_number'', VStr (id_number p))]"

definition asdict_health :: "HealthMetrics \<Rightarrow> pydict" where
  "asdict_health h =
     [(''bmi'', VFloat (bmi h)),
      (''blood_pressure_systolic'', VInt (blood_pressure_systolic h)),
      (''blood_pressure_diastolic'', VInt (blood_pressure_diastolic h)),
      (''heart_rate'', VInt (heart_rate h)),
      (''body_temperature'', VFloat (body_temperature h)),
      (''blood_sugar'', VFloat (blood_sugar h)), (''cholesterol'', VFloat (cholesterol h)),
      (''created_date'', VStr (created_date h))]"

definition asdict_medical :: "MedicalHistory \<Rightarrow> pydict" where
  "asdict_medical m =
     [(''allergies'', VList (allergies m)),
      (''chronic_diseases'', VList (chronic_diseases m)),
      (''medications'', VList (medications m)), (''surgeries'', VList (surgeries m)),
      (''family_history'', VList (family_history m))]"

definition person_data :: "PersonalInfo \<Rightarrow> HealthMetrics \<Rightarrow> MedicalHistory \<Rightarrow> pydict" where
  "person_data p h m =
     dict_merge (dict_merge (asdict_person p) (asdict_health h)) (asdict_medical m)"

text \<open>
  The shared tabular file, as the \<open>csv\<close> module presents it: the header line and the
  data lines, each a list of cells. The quoting of cells in the text of the file is the
  module's own business.
\<close>

record csv_file =
  header :: "string list"
  data_lines :: "pystr list list"

text \<open>
  The text of a float, \<open>repr\<close>, and the builtins that read a number from its text,
  \<open>float(text)\<close> and \<open>int(text)\<close> (\<open>None\<close> where they raise \<open>ValueError\<close>), are
  parameters of the model.
\<close>

record number_text =
  float_repr :: "pyfloat \<Rightarrow> pystr"
  float_of_str :: "pystr \<Rightarrow> pyfloat option"
  int_of_str :: "pystr \<Rightarrow> int option"

text \<open>
  The text the \<open>csv\<close> writer puts into a cell: a string as it is, \<open>None\<close> as the empty
  string, a number through \<open>str\<close>. The rows \<open>save_csv_data\<close> writes hold no list; the
  text of a list is not modelled, and the model raises there.
\<close>

fun cell_text :: "number_text \<Rightarrow> pyvalue \<Rightarrow> error + pystr" where
  "cell_text ft (VStr s) = Inr s"
| "cell_text ft (VInt i) = Inr (str_int i)"
| "cell_text ft (VFloat f) = Inr (float_repr ft f)"
| "cell_text ft VNone = Inr []"
| "cell_text ft (VList xs) = Inl TypeError"

text \<open>
  \<open>DictWriter.writerow\<close>: a key of the row that is not a field name raises
  \<open>ValueError\<close>; a field name the row lacks gives an empty cell.
\<close>

definition writerow :: "number_text \<Rightarrow> string list \<Rightarrow> pydict \<Rightarrow> error + pystr list" where
  "writerow ft fieldnames r =
     (if list_all (\<lambda>k. k \<in> set fieldnames) (map fst r)
      then emap (\<lambda>k. case map_of r k of None \<Rightarrow> Inr [] | Some v \<Rightarrow> cell_text ft v) fieldnames
      else Inl ValueError)"

text \<open>The loop of \<open>save_csv_data\<close> that joins the list-valued fields of a row.\<close>

fun process_value :: "pyvalue \<Rightarrow> pyvalue" where
  "process_value (VList xs) = VStr (if xs \<noteq> [] then py_join (ascii ''; '') xs else [])"
| "process_value v = v"

fun process_row :: "pydict \<Rightarrow> pydict \<Rightarrow> pydict" where
  "process_row [] processed_row = processed_row"
| "process_row ((key, v) # items) processed_row =
     process_row items (dict_set key (process_value v) processed_row)"

text \<open>
  \<open>save_csv_data\<close> returns the file it writes, \<open>None\<close> when it returns before writing.
  Opening the file for writing may fail; whether it does is the parameter
  \<open>open_fails\<close>.
\<close>

definition save_csv_data :: "number_text \<Rightarrow> bool \<Rightarrow> pydict list \<Rightarrow> error + csv_file option" where
  "save_csv_data ft open_fails data =
     (if data = [] then Inr None
      else
        let processed_data = map (\<lambda>r. process_row r []) data in
        if open_fails then Inl OSError
        else
          let fieldnames = map fst (hd processed_data) in
          ebind (emap (writerow ft fieldnames) processed_data) (\<lambda>lines.
          Inr (Some \<lparr>header = fieldnames, data_lines = lines\<rparr>)))"

text \<open>
  The configuration keys the batch reads, and the behaviour of the file system: whether
  creating the output directory fails, whether writing the folder and the JSON file of
  the record generated in iteration \<open>i\<close> fails, and whether opening the CSV file fails.
  What is written into the folders is not modelled.
\<close>

record config =
  create_folders :: bool
  generate_csv :: bool

record file_system =
  mkdir_fails :: bool
  person_write_fails :: "nat \<Rightarrow> bool"
  csv_open_fails :: bool

text \<open>
  One iteration of the loop generates the three parts of a record. An exception raised
  in the \<open>try\<close> block skips the record; the draws made before it are spent.
\<close>

definition generate_record ::
  "float_ops \<Rightarrow> pystr \<Rightarrow> (PersonalInfo \<times> HealthMetrics \<times> MedicalHistory) gen" where
  "generate_record ops now =
     gbind (generate_personal_info ops) (\<lambda>person.
     gbind (generate_health_metrics ops now person) (\<lambda>health.
     gbind generate_medical_history (\<lambda>medical.
     greturn (person, health, medical))))"

fun batch_loop ::
  "float_ops \<Rightarrow> (nat \<Rightarrow> pystr) \<Rightarrow> config \<Rightarrow> file_system \<Rightarrow> nat \<Rightarrow> nat \<Rightarrow> pydict list
     \<Rightarrow> random_state \<Rightarrow> pydict list \<times> random_state" where
  "batch_loop ops clock cfg fs i 0 all_data st = (all_data, st)"
| "batch_loop ops clock cfg fs i (Suc n) all_data st =
     (case generate_record ops (clock i) st of
        (Inl e, st') \<Rightarrow> batch_loop ops clock cfg fs (Suc i) n all_data st'
      | (Inr (person, health, medical), st') \<Rightarrow>
          if create_folders cfg \<and> person_write_fails fs i
          then batch_loop ops clock cfg fs (Suc i) n all_data st'
          else batch_loop ops clock cfg fs (Suc i) n
                 (all_data @ [person_data person health medical]) st')"

text \<open>
  \<open>generate_batch_data\<close> returns \<open>all_data\<close>; the model returns with it the CSV file the
  call leaves behind, if it writes one. \<open>range(num_people)\<close> is empty for a negative
  number.
\<close>

definition generate_batch_data ::
  "float_ops \<Rightarrow> number_text \<Rightarrow> (nat \<Rightarrow> pystr) \<Rightarrow> config \<Rightarrow> file_system \<Rightarrow> int
     \<Rightarrow> random_state \<Rightarrow> (error + pydict list \<times> csv_file option) \<times> random_state" where
  "generate_batch_data ops ft clock cfg fs num_people st =
     (if mkdir_fails fs then (Inl OSError, st)
      else
        let (all_data, st') = batch_loop ops clock cfg fs 0 (nat num_people) [] st in
        if generate_csv cfg \<and> all_data \<noteq> []
        then (case save_csv_data ft (csv_open_fails fs) all_data of
                Inl e \<Rightarrow> (Inl e, st')
              | Inr file \<Rightarrow> (Inr (all_data, file), st'))
        else (Inr (all_data, None), st'))"

subsection \<open>Instances of the parameters, for evaluating the model\<close>

text \<open>
  Exact arithmetic on the rationals in place of floating-point arithmetic, with
  \<open>round\<close> rounding a tie upwards. Every theorem below holds for every instance.
\<close>

fun exact2 :: "(rat \<Rightarrow> rat \<Rightarrow> rat) \<Rightarrow> pyfloat \<Rightarrow> pyfloat \<Rightarrow> pyfloat" where
  "exact2 f (Finite a) (Finite b) = Finite (f a b)"
| "exact2 f x y = NaN"

fun exact_pow :: "pyfloat \<Rightarrow> nat \<Rightarrow> pyfloat" where
  "exact_pow (Finite a) n = Finite (a ^ n)"
| "exact_pow x n = NaN"

fun exact_round :: "pyfloat \<Rightarrow> nat \<Rightarrow> pyfloat" where
  "exact_round (Finite a) ndigits = Finite (of_int (round (a * 10 ^ ndigits)) / 10 ^ ndigits)"
| "exact_round x ndigits = x"

definition exact_ops :: float_ops where
  "exact_ops =
     \<lparr>fadd = exact2 (+), fmul = exact2 (*), fdiv = exact2 (/),
      fpow = (\<lambda>a n. Some (exact_pow a n)), fround = exact_round,
      ffloat = (\<lambda>i. Some (Finite (of_int i)))\<rparr>"

subsection \<open>The formats of the specification\<close>

definition is_digit :: "int \<Rightarrow> bool" where
  "is_digit c = (48 \<le> c \<and> c \<le> 57)"

definition is_upper_letter :: "int \<Rightarrow> bool" where
  "is_upper_letter c = (65 \<le> c \<and> c \<le> 90)"

text \<open>The fixed two-character prefix \<open>09\<close>, then exactly eight digits.\<close>

definition phone_format :: "pystr \<Rightarrow> bool" where
  "phone_format s = (take 2 s = ascii ''09'' \<and> length (drop 2 s) = 8 \<and> list_all is_digit (drop 2 s))"

text \<open>One letter, then one digit that is 1 or 2, then seven digits.\<close>

definition id_format :: "pystr \<Rightarrow> bool" where
  "id_format s =
     (case s of
        c # g # ds \<Rightarrow> is_upper_letter c \<and> (g = 49 \<or> g = 50) \<and> length ds = 7 \<and> list_all is_digit ds
      | _ \<Rightarrow> False)"

text \<open>
  A computation returns with a property when, from every state of the random source, it
  returns a value that has the property.
\<close>

definition returns :: "'a gen \<Rightarrow> ('a \<Rightarrow> bool) \<Rightarrow> bool" where
  "returns m P = (\<forall>st. \<exists>x st'. m st = (Inr x, st') \<and> P x)"

text \<open>
  A record of the batch is consistent when it is the dict of a person, health metrics and
  medical history such that the BMI of the health metrics is \<open>calculate_bmi\<close> of the
  person's height and weight.
\<close>

definition bmi_consistent :: "float_ops \<Rightarrow> pydict \<Rightarrow> bool" where
  "bmi_consistent ops r =
     (\<exists>p h m. r = person_data p h m
        \<and> calculate_bmi ops (height p) (weight p) = Inr (bmi h))"

section \<open>Properties of the bucket counters\<close>


lemma bp_categories_loop_total:
  "bp_normal (bp_categories_loop xs c) + bp_elevated (bp_categories_loop xs c)
     + bp_stage1 (bp_categories_loop xs c) + bp_stage2 (bp_categories_loop xs c)
   = bp_normal c + bp_elevated c + bp_stage1 c + bp_stage2 c + length xs"
  by (induction xs c rule: bp_categories_loop.induct) auto

lemma analyze_bp_categories_total:
  "bp_normal (analyze_bp_categories xs) + bp_elevated (analyze_bp_categories xs)
     + bp_stage1 (analyze_bp_categories xs) + bp_stage2 (analyze_bp_categories xs)
   = length xs"
  by (simp add: analyze_bp_categories_def bp_categories_loop_total bp_categories_init_def)





text \<open>
  Claim C3, as stated: the pair (135, 95) falls through rules (a) to (c) and is counted in
  the stage-2 bucket. The code does not do that: the stage-2 counter stays at 0.
\<close>

theorem bp_135_95_not_stage2: "bp_stage2 (analyze_bp_categories [(135, 95)]) \<noteq> 1"
  by (simp add: analyze_bp_categories_def bp_categories_init_def)

text \<open>
  Claim C3, amended: the pair (135, 95) is not captured by rules (a) and (b), it is
  captured by rule (c) through its systolic part (130 \<le> 135 < 140), and it is counted in
  the stage-1 bucket and in no other.
\<close>

theorem bp_135_95_stage1:
  "spec_bp_bucket (135, 95) = Stage1
   \<and> analyze_bp_categories [(135, 95)] =
       \<lparr>bp_normal = 0, bp_elevated = 0, bp_stage1 = 1, bp_stage2 = 0\<rparr>"
  by (simp add: analyze_bp_categories_def bp_categories_init_def spec_bp_bucket_def
      spec_rule_a_def spec_rule_b_def spec_rule_c_def)


section \<open>Properties of the analyzer\<close>

lemma ebind_Inl [simp]: "ebind (Inl e) f = Inl e"
  by (simp add: ebind_def)

lemma ebind_Inr [simp]: "ebind (Inr x) f = f x"
  by (simp add: ebind_def)

lemma ebind_eq_Inr: "ebind m f = Inr y \<longleftrightarrow> (\<exists>x. m = Inr x \<and> f x = Inr y)"
  by (cases m) simp_all

lemma ebind_eq_Inl: "ebind m f = Inl e \<longleftrightarrow> (m = Inl e \<or> (\<exists>x. m = Inr x \<and> f x = Inl e))"
  by (cases m) simp_all

lemma emap_length: "emap f xs = Inr ys \<Longrightarrow> length ys = length xs"
  by (induction xs arbitrary: ys) (auto simp: ebind_eq_Inr)

lemma py_if_Inr [simp]: "py_if (Inr b) t f = (if b then t else f)"
  by (simp add: py_if_def)

lemma py_if_Inl [simp]: "py_if (Inl e) t f = Inl e"
  by (simp add: py_if_def)

lemma py_and_Inr [simp]: "py_and (Inr a) b = (if a then b else Inr False)"
  by (simp add: py_and_def)

lemma py_and_Inl [simp]: "py_and (Inl e) b = Inl e"
  by (simp add: py_and_def)

lemma py_or_Inr [simp]: "py_or (Inr a) b = (if a then Inr True else b)"
  by (simp add: py_or_def)

lemma py_or_Inl [simp]: "py_or (Inl e) b = Inl e"
  by (simp add: py_or_def)

lemma py_le_cases:
  "py_le x y = (case num_of x of None \<Rightarrow> Inl TypeError
     | Some a \<Rightarrow> (case num_of y of None \<Rightarrow> Inl TypeError | Some b \<Rightarrow> Inr (fle a b)))"
  by (simp add: py_le_def)

lemma py_lt_cases:
  "py_lt x y = (case num_of x of None \<Rightarrow> Inl TypeError
     | Some a \<Rightarrow> (case num_of y of None \<Rightarrow> Inl TypeError | Some b \<Rightarrow> Inr (flt a b)))"
  by (simp add: py_lt_def)

subsection \<open>The bucket counters on values\<close>

lemma age_groups_values_loop_total:
  "age_groups_values_loop ages g = Inr g' \<Longrightarrow> age_total g' = age_total g + length ages"
proof (induction ages arbitrary: g)
  case Nil
  then show ?case by simp
next
  case (Cons age ages)
  show ?case
  proof (cases "num_of age")
    case None
    with Cons.prems show ?thesis by (simp add: py_le_cases)
  next
    case (Some a)
    with Cons.prems show ?thesis
      by (auto simp: py_le_cases age_total_def dest!: Cons.IH split: if_splits)
  qed
qed

lemma age_groups_values_loop_error:
  "age_groups_values_loop ages g = Inl e \<Longrightarrow> e = TypeError"
proof (induction ages arbitrary: g)
  case Nil
  then show ?case by simp
next
  case (Cons age ages)
  show ?case
  proof (cases "num_of age")
    case None
    with Cons.prems show ?thesis by (simp add: py_le_cases)
  next
    case (Some a)
    with Cons.prems show ?thesis
      by (auto simp: py_le_cases dest!: Cons.IH split: if_splits)
  qed
qed

lemma age_groups_values_loop_int:
  "age_groups_values_loop (map VInt ages) g = Inr (age_groups_loop ages g)"
  by (induction ages arbitrary: g) (simp_all add: py_le_cases)

lemma bmi_categories_values_loop_total:
  "bmi_categories_values_loop xs c = Inr c' \<Longrightarrow> bmi_total c' = bmi_total c + length xs"
proof (induction xs arbitrary: c)
  case Nil
  then show ?case by simp
next
  case (Cons x xs)
  show ?case
  proof (cases "num_of x")
    case None
    with Cons.prems show ?thesis by (simp add: py_lt_cases)
  next
    case (Some a)
    with Cons.prems show ?thesis
      by (auto simp: py_le_cases py_lt_cases bmi_total_def dest!: Cons.IH split: if_splits)
  qed
qed

lemma bmi_categories_values_loop_error:
  "bmi_categories_values_loop xs c = Inl e \<Longrightarrow> e = TypeError"
proof (induction xs arbitrary: c)
  case Nil
  then show ?case by simp
next
  case (Cons x xs)
  show ?case
  proof (cases "num_of x")
    case None
    with Cons.prems show ?thesis by (simp add: py_lt_cases)
  next
    case (Some a)
    with Cons.prems show ?thesis
      by (auto simp: py_le_cases py_lt_cases dest!: Cons.IH split: if_splits)
  qed
qed

lemma bmi_categories_values_loop_float:
  "bmi_categories_values_loop (map VFloat xs) c = Inr (bmi_categories_loop xs c)"
  by (induction xs arbitrary: c) (simp_all add: py_le_cases py_lt_cases)

lemma bp_categories_values_loop_total:
  "bp_categories_values_loop xs c = Inr c' \<Longrightarrow> bp_total c' = bp_total c + length xs"
proof (induction xs arbitrary: c)
  case Nil
  then show ?case by simp
next
  case (Cons p xs)
  obtain s d where p: "p = (s, d)" by (cases p)
  show ?case
    using Cons.prems unfolding p
    by (cases "num_of s"; cases "num_of d")
      (auto simp: py_le_cases py_lt_cases bp_total_def dest!: Cons.IH split: if_splits)
qed

lemma bp_categories_values_loop_error:
  "bp_categories_values_loop xs c = Inl e \<Longrightarrow> e = TypeError"
proof (induction xs arbitrary: c)
  case Nil
  then show ?case by simp
next
  case (Cons p xs)
  obtain s d where p: "p = (s, d)" by (cases p)
  show ?case
    using Cons.prems unfolding p
    by (cases "num_of s"; cases "num_of d")
      (auto simp: py_le_cases py_lt_cases dest!: Cons.IH split: if_splits)
qed

lemma bp_categories_values_loop_int:
  "bp_categories_values_loop (map (\<lambda>p. (VInt (fst p), VInt (snd p))) xs) c =
     Inr (bp_categories_loop xs c)"
  by (induction xs arbitrary: c) (auto simp: py_le_cases py_lt_cases)

subsection \<open>The analyses\<close>

lemma length_column: "length (column k data) = length (filter (has_field k) data)"
  by (induction data)
    (auto simp: column_def has_field_def List.map_filter_simps split: option.splits)

lemma length_metric_values: "length (metric_values k data) = length (filter (included k) data)"
  by (induction data)
    (auto simp: metric_values_def column_def included_def List.map_filter_simps
      split: option.splits)


lemma length_bp_pairs:
  "length (bp_pairs data) =
     length (filter (\<lambda>row. has_field ''blood_pressure_systolic'' row
                          \<and> has_field ''blood_pressure_diastolic'' row) data)"
  by (induction data)
    (auto simp: bp_pairs_def has_field_def List.map_filter_simps split: option.splits)

lemma analyze_demographics_Some:
  assumes "analyze_demographics lib data = Inr (Some d)"
  shows "total_count d = length data"
    and "analyze_age_groups_values (column ''age'' data) = Inr (age_grouping d)"
  using assms
  by (auto simp: analyze_demographics_def Let_def ebind_eq_Inr split: if_splits)

lemma analyze_health_metrics_Some:
  assumes "analyze_health_metrics lib data = Inr (Some h)"
  shows "metrics_loop lib data metrics [] = Inr (metric_stats h)"
    and "analyze_bmi_categories_values (metric_values ''bmi'' data) = Inr (bmi_cats h)"
    and "analyze_bp_categories_values (bp_pairs data) = Inr (bp_cats h)"
  using assms
  by (auto simp: analyze_health_metrics_def ebind_eq_Inr split: if_splits)

lemma age_total_init: "age_total age_groups_init = 0"
  by (simp add: age_total_def age_groups_init_def)

lemma bmi_total_init: "bmi_total bmi_categories_init = 0"
  by (simp add: bmi_total_def bmi_categories_init_def)

lemma bp_total_init: "bp_total bp_categories_init = 0"
  by (simp add: bp_total_def bp_categories_init_def)

lemma age_sum_aux:
  assumes "analyze_demographics lib data = Inr (Some d)"
  shows "age_total (age_grouping d) = length (filter (has_field ''age'') data)"
  using age_groups_values_loop_total
    [OF analyze_demographics_Some(2) [OF assms, unfolded analyze_age_groups_values_def]]
  by (simp add: age_total_init length_column)

lemma bucket_sums_aux:
  assumes "analyze_health_metrics lib data = Inr (Some h)"
  shows "bmi_total (bmi_cats h) = length (filter (included ''bmi'') data)"
    and "bp_total (bp_cats h) =
       length (filter (\<lambda>row. has_field ''blood_pressure_systolic'' row
                            \<and> has_field ''blood_pressure_diastolic'' row) data)"
  using bmi_categories_values_loop_total
    [OF analyze_health_metrics_Some(2) [OF assms, unfolded analyze_bmi_categories_values_def]]
    bp_categories_values_loop_total
    [OF analyze_health_metrics_Some(3) [OF assms, unfolded analyze_bp_categories_values_def]]
  by (simp_all add: bmi_total_init bp_total_init length_metric_values length_bp_pairs)





lemma lib_error_other [simp]:
  "lib_error f \<noteq> StatisticsError" "lib_error f \<noteq> ZeroDivisionError"
  "lib_error f \<noteq> KeyError"
  by (cases f; simp)+


lemma lib_call_no_ZeroDivisionError: "lib_call r \<noteq> Inl ZeroDivisionError"
  by (cases r) (simp_all add: lib_call_def)

subsection \<open>The statistics of one metric\<close>
















lemma metric_entry_single:
  assumes "is_number v" and "lib_mean lib [v] = Inr mean" and "lib_median lib [v] = Inr median"
  shows "metric_entry lib [v] =
     Inr (Some \<lparr>m_mean = lib_round lib mean 2, m_median = lib_round lib median 2,
                m_min = lib_round lib v 2, m_max = lib_round lib v 2, m_stdev = VInt 0\<rparr>)"
  using assms
  by (simp add: metric_entry_def statistics_mean_def statistics_median_def py_min_def
      py_max_def lib_call_def)

subsection \<open>The sums of the bucket counts\<close>

text \<open>
  Claim C6, amended. Whenever \<open>analyze_demographics\<close> returns its analysis, the five
  age-bucket counts add up to the number of records that have an \<open>age\<close> field, whatever
  the ages are; the total record count is the number of all records. The two agree when
  every record has the field, as the rows of a CSV file with an \<open>age\<close> column do.
\<close>

theorem age_buckets_sum_to_records_with_age:
  assumes "analyze_demographics lib data = Inr (Some d)"
  shows "age_total (age_grouping d) = length (filter (has_field ''age'') data)
       \<and> total_count d = length data
       \<and> (list_all (has_field ''age'') data \<longrightarrow> age_total (age_grouping d) = total_count d)"
proof -
  have sum: "age_total (age_grouping d) = length (filter (has_field ''age'') data)"
    by (rule age_sum_aux [OF assms])
  have total: "total_count d = length data"
    by (rule analyze_demographics_Some(1) [OF assms])
  have "filter (has_field ''age'') data = data" if "list_all (has_field ''age'') data"
    using that by (simp add: list_all_iff)
  with sum total show ?thesis by simp
qed

text \<open>
  The amended claim C6 at a concrete input: one record whose age is the float 30.5, which
  lies in none of the first four ranges and is counted in the last bucket.
\<close>

theorem age_buckets_sum_witness:
  "analyze_demographics example_lib [[''age'' \<mapsto> VFloat (Finite (61 / 2))]] =
     Inr (Some \<lparr>total_count = 1,
                age_stats = \<lparr>age_mean = VFloat (Finite (61 / 2)),
                             age_median = VFloat (Finite (61 / 2)),
                             age_min = VFloat (Finite (61 / 2)),
                             age_max = VFloat (Finite (61 / 2)), age_stdev = VInt 0\<rparr>,
                gender_distribution = [], blood_type_distribution = [],
                age_grouping = \<lparr>g18_30 = 0, g31_45 = 0, g46_60 = 0, g61_75 = 0, g76_up = 1\<rparr>\<rparr>)
   \<and> list_all (has_field ''age'') [[''age'' \<mapsto> VFloat (Finite (61 / 2))]]
   \<and> age_total \<lparr>g18_30 = 0, g31_45 = 0, g46_60 = 0, g61_75 = 0, g76_up = 1\<rparr> =
       length (filter (has_field ''age'') [[''age'' \<mapsto> VFloat (Finite (61 / 2))]])"
proof -
  have run: "analyze_demographics example_lib [[''age'' \<mapsto> VFloat (Finite (61 / 2))]] =
     Inr (Some \<lparr>total_count = 1,
                age_stats = \<lparr>age_mean = VFloat (Finite (61 / 2)),
                             age_median = VFloat (Finite (61 / 2)),
                             age_min = VFloat (Finite (61 / 2)),
                             age_max = VFloat (Finite (61 / 2)), age_stdev = VInt 0\<rparr>,
                gender_distribution = [], blood_type_distribution = [],
                age_grouping = \<lparr>g18_30 = 0, g31_45 = 0, g46_60 = 0, g61_75 = 0, g76_up = 1\<rparr>\<rparr>)"
    by code_simp
  have all: "list_all (has_field ''age'') [[''age'' \<mapsto> VFloat (Finite (61 / 2))]]"
    by (simp add: has_field_def)
  from age_buckets_sum_to_records_with_age [OF run] run all show ?thesis
    by simp
qed

text \<open>
  Claim C6, as stated: for every loaded record sequence the five counts add up to the total
  record count. It fails for a sequence with a record that has no \<open>age\<close> field (a CSV
  file without that column, a JSON file whose \<open>personal_info\<close> lacks it): the list
  comprehension of \<open>analyze_demographics\<close> skips the record, so the total is 1 and the
  counts add up to 0.
\<close>

theorem age_buckets_sum_counterexample:
  "analyze_demographics example_lib [[''name'' \<mapsto> VStr [120]]] =
     Inr (Some \<lparr>total_count = 1,
                age_stats = \<lparr>age_mean = VInt 0, age_median = VInt 0, age_min = VInt 0,
                             age_max = VInt 0, age_stdev = VInt 0\<rparr>,
                gender_distribution = [], blood_type_distribution = [],
                age_grouping = \<lparr>g18_30 = 0, g31_45 = 0, g46_60 = 0, g61_75 = 0, g76_up = 0\<rparr>\<rparr>)
   \<and> age_total \<lparr>g18_30 = 0, g31_45 = 0, g46_60 = 0, g61_75 = 0, g76_up = 0\<rparr> \<noteq>
       length [[''name'' \<mapsto> VStr [120]]]"
  by code_simp

text \<open>
  Claim C5, amended. Whenever \<open>analyze_health_metrics\<close> returns its analysis, the four
  BMI-bucket counts add up to the number of records whose \<open>bmi\<close> is present and truthy
  (not zero), and the four blood-pressure counts to the number of records that have both
  blood-pressure fields. Each sum is the total record count when every record is of that
  kind.
\<close>

theorem bmi_bp_buckets_sum:
  assumes "analyze_health_metrics lib data = Inr (Some h)"
  shows "bmi_total (bmi_cats h) = length (filter (included ''bmi'') data)
       \<and> bp_total (bp_cats h) =
           length (filter (\<lambda>row. has_field ''blood_pressure_systolic'' row
                                \<and> has_field ''blood_pressure_diastolic'' row) data)
       \<and> (list_all (included ''bmi'') data \<longrightarrow> bmi_total (bmi_cats h) = length data)
       \<and> (list_all (\<lambda>row. has_field ''blood_pressure_systolic'' row
                           \<and> has_field ''blood_pressure_diastolic'' row) data
            \<longrightarrow> bp_total (bp_cats h) = length data)"
proof -
  have all: "filter P data = data" if "list_all P data" for P :: "row \<Rightarrow> bool"
    using that by (simp add: list_all_iff)
  show ?thesis
    using bucket_sums_aux [OF assms] all by auto
qed

text \<open>
  The amended claim C5 at a concrete input: one record with a BMI of 22.5, a systolic
  pressure of 135.5 and no diastolic value (\<open>None\<close>). The chain of conditions decides on
  the systolic value alone and counts the record as stage 1.
\<close>

theorem bmi_bp_buckets_sum_witness:
  "analyze_health_metrics example_lib
     [[''bmi'' \<mapsto> VFloat (Finite (45 / 2)),
       ''blood_pressure_systolic'' \<mapsto> VFloat (Finite (271 / 2)),
       ''blood_pressure_diastolic'' \<mapsto> VNone]] =
     Inr (Some \<lparr>metric_stats =
          [(''bmi'', \<lparr>m_mean = VFloat (Finite (45 / 2)), m_median = VFloat (Finite (45 / 2)),
              m_min = VFloat (Finite (45 / 2)), m_max = VFloat (Finite (45 / 2)),
              m_stdev = VInt 0\<rparr>),
           (''blood_pressure_systolic'',
            \<lparr>m_mean = VFloat (Finite (271 / 2)), m_median = VFloat (Finite (271 / 2)),
              m_min = VFloat (Finite (271 / 2)), m_max = VFloat (Finite (271 / 2)),
              m_stdev = VInt 0\<rparr>)],
          bmi_cats = \<lparr>bmi_under = 0, bmi_normal = 1, bmi_over = 0, bmi_obese = 0\<rparr>,
          bp_cats = \<lparr>bp_normal = 0, bp_elevated = 0, bp_stage1 = 1, bp_stage2 = 0\<rparr>\<rparr>)
   \<and> list_all (included ''bmi'')
       [[''bmi'' \<mapsto> VFloat (Finite (45 / 2)),
         ''blood_pressure_systolic'' \<mapsto> VFloat (Finite (271 / 2)),
         ''blood_pressure_diastolic'' \<mapsto> VNone]]
   \<and> list_all (\<lambda>row. has_field ''blood_pressure_systolic'' row
                      \<and> has_field ''blood_pressure_diastolic'' row)
       [[''bmi'' \<mapsto> VFloat (Finite (45 / 2)),
         ''blood_pressure_systolic'' \<mapsto> VFloat (Finite (271 / 2)),
         ''blood_pressure_diastolic'' \<mapsto> VNone]]
   \<and> bmi_total \<lparr>bmi_under = 0, bmi_normal = 1, bmi_over = 0, bmi_obese = 0\<rparr> = 1
   \<and> bp_total \<lparr>bp_normal = 0, bp_elevated = 0, bp_stage1 = 1, bp_stage2 = 0\<rparr> = 1"
proof -
  let ?data = "[[''bmi'' \<mapsto> VFloat (Finite (45 / 2)),
       ''blood_pressure_systolic'' \<mapsto> VFloat (Finite (271 / 2)),
       ''blood_pressure_diastolic'' \<mapsto> VNone]]"
  have run: "analyze_health_metrics example_lib ?data =
     Inr (Some \<lparr>metric_stats =
          [(''bmi'', \<lparr>m_mean = VFloat (Finite (45 / 2)), m_median = VFloat (Finite (45 / 2)),
              m_min = VFloat (Finite (45 / 2)), m_max = VFloat (Finite (45 / 2)),
              m_stdev = VInt 0\<rparr>),
           (''blood_pressure_systolic'',
            \<lparr>m_mean = VFloat (Finite (271 / 2)), m_median = VFloat (Finite (271 / 2)),
              m_min = VFloat (Finite (271 / 2)), m_max = VFloat (Finite (271 / 2)),
              m_stdev = VInt 0\<rparr>)],
          bmi_cats = \<lparr>bmi_under = 0, bmi_normal = 1, bmi_over = 0, bmi_obese = 0\<rparr>,
          bp_cats = \<lparr>bp_normal = 0, bp_elevated = 0, bp_stage1 = 1, bp_stage2 = 0\<rparr>\<rparr>)"
    by code_simp
  have inc: "list_all (included ''bmi'') ?data"
    by (simp add: included_def)
  have both: "list_all (\<lambda>row. has_field ''blood_pressure_systolic'' row
                           \<and> has_field ''blood_pressure_diastolic'' row) ?data"
    by (simp add: has_field_def)
  from bmi_bp_buckets_sum [OF run] run inc both show ?thesis
    by simp
qed

text \<open>
  Claim C5, as stated: the four BMI-bucket counts and the four blood-pressure counts each
  add up to the total record count. Both fail for a record whose \<open>bmi\<close> is 0.0, which is
  what \<open>load_from_csv\<close> stores for an empty cell, and which has no blood-pressure fields
  (a CSV file without these columns): the guard \<open>'bmi' in row and row['bmi']\<close> and the
  guard on the two blood-pressure keys leave the record out, so the BMI counts and the
  blood-pressure counts add up to 0 for 1 record.
\<close>

theorem bmi_bp_buckets_sum_counterexample:
  "analyze_health_metrics example_lib [[''bmi'' \<mapsto> VFloat (Finite 0)]] =
     Inr (Some \<lparr>metric_stats = [],
          bmi_cats = \<lparr>bmi_under = 0, bmi_normal = 0, bmi_over = 0, bmi_obese = 0\<rparr>,
          bp_cats = \<lparr>bp_normal = 0, bp_elevated = 0, bp_stage1 = 0, bp_stage2 = 0\<rparr>\<rparr>)
   \<and> bmi_total \<lparr>bmi_under = 0, bmi_normal = 0, bmi_over = 0, bmi_obese = 0\<rparr> \<noteq>
       length [[''bmi'' \<mapsto> VFloat (Finite 0)]]
   \<and> bp_total \<lparr>bp_normal = 0, bp_elevated = 0, bp_stage1 = 0, bp_stage2 = 0\<rparr> \<noteq>
       length [[''bmi'' \<mapsto> VFloat (Finite 0)]]"
  by code_simp

subsection \<open>The exceptions of the analyses\<close>

lemma emap_Inl: "emap f xs = Inl e \<Longrightarrow> \<exists>x\<in>set xs. f x = Inl e"
  by (induction xs) (auto simp: ebind_eq_Inl)

lemma lib_error_cases: "lib_error f = OverflowError \<or> lib_error f = AttributeError"
  by (cases f) simp_all

lemma lib_call_error: "lib_call r = Inl e \<Longrightarrow> e = OverflowError \<or> e = AttributeError"
  using lib_error_cases by (cases r) (auto simp: lib_call_def)

lemma statistics_mean_error:
  "statistics_mean lib xs = Inl e \<Longrightarrow>
     xs = [] \<or> e = TypeError \<or> e = OverflowError \<or> e = AttributeError"
  by (auto simp: statistics_mean_def split: if_splits dest: lib_call_error)

lemma statistics_median_error:
  "statistics_median lib xs = Inl e \<Longrightarrow>
     xs = [] \<or> e = TypeError \<or> e = OverflowError \<or> e = AttributeError"
  by (auto simp: statistics_median_def split: if_splits dest: lib_call_error)

lemma statistics_stdev_error:
  "statistics_stdev lib xs = Inl e \<Longrightarrow>
     length xs < 2 \<or> e = TypeError \<or> e = OverflowError \<or> e = AttributeError"
  by (auto simp: statistics_stdev_def split: if_splits dest: lib_call_error)

lemma py_min_error: "py_min xs = Inl e \<Longrightarrow> xs = [] \<or> e = TypeError"
  by (auto simp: py_min_def split: if_splits list.splits)

lemma py_max_error: "py_max xs = Inl e \<Longrightarrow> xs = [] \<or> e = TypeError"
  by (auto simp: py_max_def split: if_splits list.splits)

lemma counter_of_values_error: "counter_of_values vs = Inl e \<Longrightarrow> e = TypeError"
  by (simp add: counter_of_values_def split: if_splits)

lemma analyze_age_groups_values_error: "analyze_age_groups_values vs = Inl e \<Longrightarrow> e = TypeError"
  unfolding analyze_age_groups_values_def by (rule age_groups_values_loop_error)

lemma analyze_bmi_categories_values_error:
  "analyze_bmi_categories_values vs = Inl e \<Longrightarrow> e = TypeError"
  unfolding analyze_bmi_categories_values_def by (rule bmi_categories_values_loop_error)

lemma analyze_bp_categories_values_error:
  "analyze_bp_categories_values vs = Inl e \<Longrightarrow> e = TypeError"
  unfolding analyze_bp_categories_values_def by (rule bp_categories_values_loop_error)

lemma history_items_error: "history_items v = Inl e \<Longrightarrow> e = TypeError"
  by (cases v) simp_all

lemma history_loop_error: "history_loop key data acc = Inl e \<Longrightarrow> e = TypeError"
  by (induction key data acc rule: history_loop.induct)
    (auto simp: ebind_eq_Inl split: option.splits if_splits dest: history_items_error)

lemma analyze_medical_history_error: "analyze_medical_history data = Inl e \<Longrightarrow> e = TypeError"
  by (auto simp: analyze_medical_history_def ebind_eq_Inl split: if_splits
      dest: history_loop_error)

lemma metric_entry_error:
  "metric_entry lib vs = Inl e \<Longrightarrow> e = TypeError \<or> e = OverflowError \<or> e = AttributeError"
  by (auto simp: metric_entry_def ebind_eq_Inl split: if_splits
      dest: statistics_mean_error statistics_median_error statistics_stdev_error
        py_min_error py_max_error)

lemma metrics_loop_error:
  "metrics_loop lib data ms acc = Inl e \<Longrightarrow>
     e = TypeError \<or> e = OverflowError \<or> e = AttributeError"
  by (induction ms arbitrary: acc) (auto simp: ebind_eq_Inl dest: metric_entry_error)

lemma analyze_health_metrics_error:
  "analyze_health_metrics lib data = Inl e \<Longrightarrow>
     e = TypeError \<or> e = OverflowError \<or> e = AttributeError"
  by (auto simp: analyze_health_metrics_def ebind_eq_Inl split: if_splits
      dest: metrics_loop_error analyze_bmi_categories_values_error
        analyze_bp_categories_values_error)

lemma analyze_demographics_error:
  "analyze_demographics lib data = Inl e \<Longrightarrow>
     e = TypeError \<or> e = OverflowError \<or> e = AttributeError"
  by (auto simp: analyze_demographics_def Let_def ebind_eq_Inl split: if_splits
      dest: statistics_mean_error statistics_median_error statistics_stdev_error
        py_min_error py_max_error counter_of_values_error analyze_age_groups_values_error)

lemma analyze_demographics_nonempty:
  "data \<noteq> [] \<Longrightarrow> analyze_demographics lib data = Inr r \<Longrightarrow>
     \<exists>d. r = Some d \<and> total_count d = length data"
  by (auto simp: analyze_demographics_def Let_def ebind_eq_Inr split: if_splits)

lemma percent_lines_ok:
  "total_count d \<noteq> 0 \<Longrightarrow> \<exists>ls. percent_lines mk items (Some d) = Inr ls"
  unfolding percent_lines_def
  by (induction items) (auto simp: percentage_def)

lemma demographics_lines_ok:
  assumes "total_count d \<noteq> 0"
  shows "\<exists>ls. demographics_lines (Some d) = Inr ls"
proof -
  obtain a where a: "percent_lines Gender_line (gender_distribution d) (Some d) = Inr a"
    using percent_lines_ok [OF assms] by blast
  obtain b where
    b: "percent_lines Age_group_line (age_group_items (age_grouping d)) (Some d) = Inr b"
    using percent_lines_ok [OF assms] by blast
  show ?thesis by (simp add: demographics_lines_def a b)
qed

lemma health_lines_ok:
  assumes "total_count d \<noteq> 0"
  shows "\<exists>ls. health_lines (Some d) h = Inr ls"
proof (cases h)
  case None
  then show ?thesis by (simp add: health_lines_def)
next
  case (Some x)
  obtain a where a: "percent_lines Bmi_line (bmi_items (bmi_cats x)) (Some d) = Inr a"
    using percent_lines_ok [OF assms] by blast
  obtain b where b: "percent_lines Bp_line (bp_items (bp_cats x)) (Some d) = Inr b"
    using percent_lines_ok [OF assms] by blast
  show ?thesis by (simp add: health_lines_def Some a b)
qed

lemma generate_report_error:
  assumes "generate_report lib data = Inl e"
  shows "e = TypeError \<or> e = OverflowError \<or> e = AttributeError"
proof (cases "data = []")
  case True
  with assms show ?thesis by (simp add: generate_report_def)
next
  case False
  show ?thesis
  proof (cases "analyze_demographics lib data")
    case (Inl e1)
    with assms False have "e = e1" by (simp add: generate_report_def)
    with Inl show ?thesis by (auto dest: analyze_demographics_error)
  next
    case (Inr r)
    from analyze_demographics_nonempty [OF False Inr] obtain d where
      r: "r = Some d" and total: "total_count d = length data"
      by blast
    from total False have nz: "total_count d \<noteq> 0" by simp
    obtain l1 where l1: "demographics_lines (Some d) = Inr l1"
      using demographics_lines_ok [OF nz] by blast
    show ?thesis
    proof (cases "analyze_health_metrics lib data")
      case (Inl e2)
      with assms False Inr have "e = e2" by (simp add: generate_report_def)
      with Inl show ?thesis by (auto dest: analyze_health_metrics_error)
    next
      case h: (Inr h)
      obtain l2 where l2: "health_lines (Some d) h = Inr l2"
        using health_lines_ok [OF nz] by blast
      show ?thesis
      proof (cases "analyze_medical_history data")
        case (Inl e3)
        with assms False Inr h have "e = e3" by (simp add: generate_report_def)
        with Inl show ?thesis by (auto dest: analyze_medical_history_error)
      next
        case m: (Inr m)
        from assms False Inr h m r l1 l2 show ?thesis
          by (simp add: generate_report_def)
      qed
    qed
  qed
qed

text \<open>
  Claim C8. On an empty record sequence \<open>generate_report\<close> returns the "no data" text
  and each of the three analysis functions returns the empty result, none of them raising.
  On any record sequence \<open>generate_report\<close> does not raise \<open>ZeroDivisionError\<close>: the
  percentages are only computed behind the emptiness check.
\<close>

theorem empty_data_no_error:
  "generate_report lib [] = Inr No_data
   \<and> analyze_demographics lib [] = Inr None
   \<and> analyze_health_metrics lib [] = Inr None
   \<and> analyze_medical_history [] = Inr None
   \<and> generate_report lib data \<noteq> Inl ZeroDivisionError"
proof -
  have "generate_report lib data \<noteq> Inl ZeroDivisionError"
    using generate_report_error [of lib data ZeroDivisionError] by auto
  then show ?thesis
    by (simp add: generate_report_def analyze_demographics_def analyze_health_metrics_def
        analyze_medical_history_def)
qed



section \<open>Properties of the generator\<close>

subsection \<open>Computations that draw\<close>

lemma returns_greturn: "P x \<Longrightarrow> returns (greturn x) P"
  by (simp add: returns_def greturn_def)

lemma returns_gbind:
  assumes "returns m P" and "\<And>x. P x \<Longrightarrow> returns (f x) Q"
  shows "returns (gbind m f) Q"
  unfolding returns_def
proof
  fix st
  from assms(1) obtain x st' where m: "m st = (Inr x, st')" and p: "P x"
    unfolding returns_def by blast
  from assms(2) [OF p] obtain y st'' where "f x st' = (Inr y, st'')" and "Q y"
    unfolding returns_def by blast
  then show "\<exists>y st''. gbind m f st = (Inr y, st'') \<and> Q y"
    using m by (simp add: gbind_def)
qed

lemma returns_weaken: "returns m P \<Longrightarrow> (\<And>x. P x \<Longrightarrow> Q x) \<Longrightarrow> returns m Q"
  unfolding returns_def by blast

lemma returns_next_int: "returns next_int (\<lambda>n. True)"
  by (simp add: returns_def next_int_def split: list.splits)

lemma returns_randint:
  assumes "a \<le> b"
  shows "returns (randint a b) (\<lambda>r. a \<le> r \<and> r \<le> b)"
proof -
  have "a \<le> a + int n mod (b - a + 1) \<and> a + int n mod (b - a + 1) \<le> b" for n
  proof -
    have "0 < b - a + 1" using assms by simp
    then have "0 \<le> int n mod (b - a + 1)" "int n mod (b - a + 1) < b - a + 1"
      by (rule pos_mod_sign, rule pos_mod_bound)
    then show ?thesis by linarith
  qed
  then show ?thesis
    using assms
    by (auto simp: randint_def intro!: returns_gbind [OF returns_next_int] returns_greturn)
qed

lemma returns_choice:
  assumes "xs \<noteq> []"
  shows "returns (choice xs) (\<lambda>x. x \<in> set xs)"
  using assms
  by (auto simp: choice_def intro!: returns_gbind [OF returns_next_int] returns_greturn)

lemma returns_greplicate:
  assumes "returns m P"
  shows "returns (greplicate k m) (\<lambda>xs. length xs = k \<and> list_all P xs)"
proof (induction k)
  case 0
  show ?case by (simp add: returns_greturn)
next
  case (Suc k)
  show ?case
    unfolding greplicate.simps
    by (rule returns_gbind [OF assms], rule returns_gbind [OF Suc], rule returns_greturn) simp
qed

lemma returns_uniform: "returns (uniform a b) (\<lambda>x. True)"
  by (simp add: returns_def uniform_def split: list.splits)


lemma str_int_digit:
  assumes "0 \<le> d" and "d \<le> 9"
  shows "str_int d = [48 + d]"
proof -
  have "nat d < 10" using assms by simp
  then have "digits_of (nat d) = [48 + int (nat d)]"
    by (subst digits_of.simps) simp
  then show ?thesis using assms by (simp add: str_int_def)
qed

lemma returns_digit:
  "returns (gbind (randint 0 9) (\<lambda>d. greturn (str_int d))) (\<lambda>s. \<exists>c. s = [c] \<and> is_digit c)"
  by (rule returns_gbind [OF returns_randint [of 0 9]], simp, rule returns_greturn)
    (simp add: str_int_digit is_digit_def)

lemma concat_digits:
  "list_all (\<lambda>s. \<exists>c. s = [c] \<and> is_digit c) xs \<Longrightarrow>
     length (concat xs) = length xs \<and> list_all is_digit (concat xs)"
  by (induction xs) auto

lemma returns_digits:
  "returns (greplicate k (gbind (randint 0 9) (\<lambda>d. greturn (str_int d))))
     (\<lambda>xs. length (concat xs) = k \<and> list_all is_digit (concat xs))"
  by (rule returns_weaken [OF returns_greplicate [OF returns_digit]])
    (use concat_digits in auto)

lemma returns_generate_phone: "returns generate_phone phone_format"
  unfolding generate_phone_def
  by (rule returns_gbind [OF returns_choice], simp, rule returns_gbind [OF returns_digits],
      rule returns_greturn)
    (simp add: phone_format_def ascii_def)

lemma upper_letters: "c \<in> set (ascii ''ABCDEFGHIJKLMNOPQRSTUVWXYZ'') \<Longrightarrow> is_upper_letter c"
  by (auto simp: ascii_def is_upper_letter_def)

lemma returns_gender_digit:
  "returns (choice [1, 2 :: int]) (\<lambda>g. str_int g = [49] \<or> str_int g = [50])"
  by (rule returns_weaken [OF returns_choice]) (auto simp: str_int_digit)

lemma returns_generate_id_number: "returns generate_id_number id_format"
  unfolding generate_id_number_def
  apply (rule returns_gbind [OF returns_choice])
   apply (simp add: ascii_def)
  apply (rule returns_gbind [OF returns_gender_digit])
  apply (rule returns_gbind [OF returns_digits])
  apply (rule returns_greturn)
  apply (auto simp: id_format_def dest: upper_letters)
  done

lemma returns_generate_name: "returns generate_name (\<lambda>nm. True)"
  unfolding generate_name_def choices_def
  apply (rule returns_gbind [OF returns_choice])
   apply (simp add: surnames_def)
  apply (rule returns_gbind [OF returns_choice])
   apply simp
  apply (rule returns_gbind [OF returns_greplicate [OF returns_choice]])
   apply (simp add: given_names_def)
  apply (rule returns_greturn)
  apply simp
  done

lemma returns_generate_email: "returns (generate_email nm) (\<lambda>em. True)"
  unfolding generate_email_def
  apply (rule returns_gbind [OF returns_randint])
   apply simp
  apply (rule returns_gbind [OF returns_choice])
   apply simp
  apply (rule returns_greturn)
  apply simp
  done

lemma returns_gender:
  "returns (choice genders) (\<lambda>g. g = [30007] \<or> g = [22899])"
  by (rule returns_weaken [OF returns_choice]) (auto simp: genders_def)

lemma returns_blood_type:
  "returns (choice blood_types) (\<lambda>b. b \<in> {ascii ''A'', ascii ''B'', ascii ''AB'', ascii ''O''})"
  by (rule returns_weaken [OF returns_choice]) (auto simp: blood_types_def ascii_def)

lemma returns_address: "returns (choice addresses) (\<lambda>a. True)"
  by (rule returns_weaken [OF returns_choice]) (auto simp: addresses_def)

lemma returns_if_uniform:
  "returns (if c then uniform a b else uniform a' b') (\<lambda>x. True)"
  by (simp add: returns_uniform)

lemma returns_generate_personal_info:
  "returns (generate_personal_info ops)
     (\<lambda>p. 18 \<le> age p \<and> age p \<le> 80
          \<and> (gender p = [30007] \<or> gender p = [22899])
          \<and> blood_type p \<in> {ascii ''A'', ascii ''B'', ascii ''AB'', ascii ''O''}
          \<and> phone_format (phone p) \<and> id_format (id_number p))"
  unfolding generate_personal_info_def
  apply (rule returns_gbind [OF returns_generate_name])
  apply (rule returns_gbind [OF returns_randint [of 18 80]])
   apply simp
  apply (rule returns_gbind [OF returns_gender])
  apply (rule returns_gbind [OF returns_if_uniform])
  apply (rule returns_gbind [OF returns_if_uniform])
  apply (rule returns_gbind [OF returns_blood_type])
  apply (rule returns_gbind [OF returns_generate_phone])
  apply (rule returns_gbind [OF returns_generate_email])
  apply (rule returns_gbind [OF returns_address])
  apply (rule returns_gbind [OF returns_generate_phone])
  apply (rule returns_gbind [OF returns_generate_id_number])
  apply (rule returns_greturn)
  apply simp
  done

text \<open>
  Claim C9. From every state of the random source \<open>generate_personal_info\<close> returns a
  record, and in that record the age is an integer from 18 to 80, the gender is one of
  the two categories of the pool, the blood type is one of A, B, AB and O, the phone
  number is the prefix 09 followed by exactly eight digits, and the identifier is one
  capital letter, then the digit 1 or 2, then seven digits.
\<close>

theorem generated_person_fields:
  "\<exists>p st'. generate_personal_info ops st = (Inr p, st')
     \<and> 18 \<le> age p \<and> age p \<le> 80
     \<and> (gender p = [30007] \<or> gender p = [22899])
     \<and> blood_type p \<in> {ascii ''A'', ascii ''B'', ascii ''AB'', ascii ''O''}
     \<and> phone_format (phone p) \<and> id_format (id_number p)"
  using returns_generate_personal_info [of ops] unfolding returns_def by blast

subsection \<open>The BMI of a generated record\<close>

lemma gbind_eq_Inr:
  "gbind m f st = (Inr y, st'') \<longleftrightarrow> (\<exists>x st'. m st = (Inr x, st') \<and> f x st' = (Inr y, st''))"
  by (cases "m st") (auto simp: gbind_def split: sum.splits)

lemma calculate_bmi_formula:
  assumes "calculate_bmi ops h w = Inr b"
  shows "\<exists>square. fpow ops (fdiv ops h (Finite 100)) 2 = Some square \<and> square \<noteq> Finite 0
           \<and> b = fround ops (fdiv ops w square) 2"
  using assms
  by (auto simp: calculate_bmi_def py_truediv_def py_pow_def ebind_eq_Inr
      split: if_splits option.splits)

lemma generate_health_metrics_bmi:
  assumes "generate_health_metrics ops now person st = (Inr health, st')"
  shows "calculate_bmi ops (height person) (weight person) = Inr (bmi health)"
proof (cases "calculate_bmi ops (height person) (weight person)")
  case (Inl e)
  with assms show ?thesis
    by (simp add: generate_health_metrics_def graise_def)
next
  case (Inr b)
  with assms have "bmi health = b"
    by (auto simp: generate_health_metrics_def Let_def gbind_eq_Inr greturn_def graise_def
        split: sum.splits)
  with Inr show ?thesis by simp
qed

lemma generate_record_bmi:
  assumes "generate_record ops now st = (Inr (person, health, medical), st')"
  shows "calculate_bmi ops (height person) (weight person) = Inr (bmi health)"
  using assms
  by (auto simp: generate_record_def gbind_eq_Inr greturn_def
      dest: generate_health_metrics_bmi)

lemma batch_loop_consistent:
  assumes "batch_loop ops clock cfg fs i n all_data st = (out, st')"
    and "list_all (bmi_consistent ops) all_data"
  shows "list_all (bmi_consistent ops) out"
  using assms
proof (induction n arbitrary: i all_data st)
  case 0
  then show ?case by simp
next
  case (Suc n)
  show ?case
  proof (cases "generate_record ops (clock i) st")
    case (Pair res st1)
    show ?thesis
    proof (cases res)
      case (Inl e)
      with Suc.prems Pair show ?thesis
        by (auto dest: Suc.IH)
    next
      case (Inr rec)
      obtain person health medical where rec: "rec = (person, health, medical)"
        by (cases rec)
      have c: "bmi_consistent ops (person_data person health medical)"
        using generate_record_bmi [of ops "clock i" st person health medical st1]
          Pair Inr rec
        by (auto simp: bmi_consistent_def)
      show ?thesis
      proof (cases "create_folders cfg \<and> person_write_fails fs i")
        case True
        with Suc.prems Pair Inr rec show ?thesis
          by (auto dest: Suc.IH)
      next
        case False
        with Suc.prems(1) Pair Inr rec have
          "batch_loop ops clock cfg fs (Suc i) n
             (all_data @ [person_data person health medical]) st1 = (out, st')"
          by auto
        moreover have "list_all (bmi_consistent ops)
            (all_data @ [person_data person health medical])"
          using Suc.prems(2) c by simp
        ultimately show ?thesis by (rule Suc.IH)
      qed
    qed
  qed
qed

lemma person_data_lookup:
  "map_of (person_data p h m) ''height'' = Some (VFloat (height p))"
  "map_of (person_data p h m) ''weight'' = Some (VFloat (weight p))"
  "map_of (person_data p h m) ''bmi'' = Some (VFloat (bmi h))"
  by (simp_all add: person_data_def asdict_person_def asdict_health_def asdict_medical_def)

lemma generate_batch_data_all_data:
  assumes "generate_batch_data ops ft clock cfg fs num_people st = (Inr (all_data, file), st')"
  shows "\<exists>st1. batch_loop ops clock cfg fs 0 (nat num_people) [] st = (all_data, st1)"
  using assms
  by (auto simp: generate_batch_data_def Let_def split: if_splits prod.splits sum.splits)

text \<open>
  Claim C1. In every record of a batch that \<open>generate_batch_data\<close> returns, the
  \<open>bmi\<close> field is \<open>calculate_bmi\<close> of the \<open>height\<close> and \<open>weight\<close> fields of the same
  record, that is \<open>round(weight / (height / 100) ** 2, 2)\<close> in the arithmetic of floats;
  and the health metrics that \<open>generate_health_metrics\<close> returns for a person carry
  exactly that value for the person's height and weight.
\<close>

theorem generated_bmi_consistent:
  "(generate_batch_data ops ft clock cfg fs num_people st = (Inr (all_data, file), st')
      \<and> r \<in> set all_data \<longrightarrow>
      (\<exists>h w b. map_of r ''height'' = Some (VFloat h) \<and> map_of r ''weight'' = Some (VFloat w)
         \<and> map_of r ''bmi'' = Some (VFloat b)
         \<and> calculate_bmi ops h w = Inr b
         \<and> (\<exists>square. fpow ops (fdiv ops h (Finite 100)) 2 = Some square
               \<and> square \<noteq> Finite 0 \<and> b = fround ops (fdiv ops w square) 2)))
   \<and> (generate_health_metrics ops now person st0 = (Inr health, st1) \<longrightarrow>
        calculate_bmi ops (height person) (weight person) = Inr (bmi health)
        \<and> (\<exists>square. fpow ops (fdiv ops (height person) (Finite 100)) 2 = Some square
              \<and> square \<noteq> Finite 0
              \<and> bmi health = fround ops (fdiv ops (weight person) square) 2))"
proof -
  have batch: "\<exists>h w b. map_of r ''height'' = Some (VFloat h)
         \<and> map_of r ''weight'' = Some (VFloat w) \<and> map_of r ''bmi'' = Some (VFloat b)
         \<and> calculate_bmi ops h w = Inr b
         \<and> (\<exists>square. fpow ops (fdiv ops h (Finite 100)) 2 = Some square
               \<and> square \<noteq> Finite 0 \<and> b = fround ops (fdiv ops w square) 2)"
    if run: "generate_batch_data ops ft clock cfg fs num_people st = (Inr (all_data, file), st')"
      and r: "r \<in> set all_data"
  proof -
    from generate_batch_data_all_data [OF run] obtain st2 where
      "batch_loop ops clock cfg fs 0 (nat num_people) [] st = (all_data, st2)"
      by blast
    from batch_loop_consistent [OF this] have "list_all (bmi_consistent ops) all_data"
      by simp
    with r have "bmi_consistent ops r"
      by (simp add: list_all_iff)
    then obtain p h m where rd: "r = person_data p h m"
      and c: "calculate_bmi ops (height p) (weight p) = Inr (bmi h)"
      unfolding bmi_consistent_def by blast
    show ?thesis
      using c calculate_bmi_formula [OF c] by (simp add: rd person_data_lookup)
  qed
  have single: "calculate_bmi ops (height person) (weight person) = Inr (bmi health)
        \<and> (\<exists>square. fpow ops (fdiv ops (height person) (Finite 100)) 2 = Some square
              \<and> square \<noteq> Finite 0
              \<and> bmi health = fround ops (fdiv ops (weight person) square) 2)"
    if "generate_health_metrics ops now person st0 = (Inr health, st1)"
    using generate_health_metrics_bmi [OF that]
      calculate_bmi_formula [OF generate_health_metrics_bmi [OF that]]
    by simp
  from batch single show ?thesis by blast
qed

text \<open>
  A batch of one record, drawn with height 170 and weight 65 in exact arithmetic, has the
  BMI 22.49; the health metrics of a person of height 180 and weight 81 have the BMI 25.
\<close>

theorem generated_bmi_consistent_witness:
  "generate_batch_data exact_ops
       \<lparr>float_repr = (\<lambda>f. []), float_of_str = (\<lambda>s. None),
         int_of_str = (\<lambda>s. None)\<rparr> (\<lambda>i. [])
       \<lparr>create_folders = False, generate_csv = False\<rparr>
       \<lparr>mkdir_fails = False, person_write_fails = (\<lambda>i. False), csv_open_fails = False\<rparr> 1
       \<lparr>int_tape = [], float_tape = [Finite 170, Finite 65]\<rparr> =
     (Inr ([[(''name'', VStr [36249, 23478]), (''age'', VInt 18),
         (''gender'', VStr [30007]), (''height'', VFloat (Finite 170)),
         (''weight'', VFloat (Finite 65)), (''blood_type'', VStr [65]),
         (''phone'', VStr [48, 57, 48, 48, 48, 48, 48, 48, 48, 48]),
         (''email'', VStr [117, 115, 101, 114, 49, 48, 48, 48, 64, 103, 109, 97, 105, 108,
            46, 99, 111, 109]),
         (''address'', VStr [21488, 21271, 24066, 20449, 32681, 21312]),
         (''emergency_contact'', VStr [48, 57, 48, 48, 48, 48, 48, 48, 48, 48]),
         (''id_number'', VStr [65, 49, 48, 48, 48, 48, 48, 48, 48]),
         (''bmi'', VFloat (Finite (2249 / 100))),
         (''blood_pressure_systolic'', VInt 110),
         (''blood_pressure_diastolic'', VInt 70), (''heart_rate'', VInt 60),
         (''body_temperature'', VFloat (Finite 36)),
         (''blood_sugar'', VFloat (Finite (352 / 5))),
         (''cholesterol'', VFloat (Finite 132)),
         (''created_date'', VStr []), (''allergies'', VList []),
         (''chronic_diseases'', VList []), (''medications'', VList []),
         (''surgeries'', VList []), (''family_history'', VList [])]], None),
      \<lparr>int_tape = [], float_tape = []\<rparr>)
   \<and> calculate_bmi exact_ops (Finite 170) (Finite 65) = Inr (Finite (2249 / 100))
   \<and> generate_health_metrics exact_ops []
        \<lparr>name = [], age = 30, gender = [], height = Finite 180, weight = Finite 81,
         blood_type = [], phone = [], email = [], address = [], emergency_contact = [],
         id_number = []\<rparr> \<lparr>int_tape = [], float_tape = []\<rparr> =
       (Inr \<lparr>bmi = Finite 25, blood_pressure_systolic = 110, blood_pressure_diastolic = 70,
             heart_rate = 60, body_temperature = Finite 36, blood_sugar = Finite 80,
             cholesterol = Finite 150, created_date = []\<rparr>,
        \<lparr>int_tape = [], float_tape = []\<rparr>)
   \<and> calculate_bmi exact_ops (Finite 180) (Finite 81) = Inr (Finite 25)"
proof -
  have run: "generate_batch_data exact_ops
       \<lparr>float_repr = (\<lambda>f. []), float_of_str = (\<lambda>s. None),
         int_of_str = (\<lambda>s. None)\<rparr> (\<lambda>i. [])
       \<lparr>create_folders = False, generate_csv = False\<rparr>
       \<lparr>mkdir_fails = False, person_write_fails = (\<lambda>i. False), csv_open_fails = False\<rparr> 1
       \<lparr>int_tape = [], float_tape = [Finite 170, Finite 65]\<rparr> =
     (Inr ([[(''name'', VStr [36249, 23478]), (''age'', VInt 18),
         (''gender'', VStr [30007]), (''height'', VFloat (Finite 170)),
         (''weight'', VFloat (Finite 65)), (''blood_type'', VStr [65]),
         (''phone'', VStr [48, 57, 48, 48, 48, 48, 48, 48, 48, 48]),
         (''email'', VStr [117, 115, 101, 114, 49, 48, 48, 48, 64, 103, 109, 97, 105, 108,
            46, 99, 111, 109]),
         (''address'', VStr [21488, 21271, 24066, 20449, 32681, 21312]),
         (''emergency_contact'', VStr [48, 57, 48, 48, 48, 48, 48, 48, 48, 48]),
         (''id_number'', VStr [65, 49, 48, 48, 48, 48, 48, 48, 48]),
         (''bmi'', VFloat (Finite (2249 / 100))),
         (''blood_pressure_systolic'', VInt 110),
         (''blood_pressure_diastolic'', VInt 70), (''heart_rate'', VInt 60),
         (''body_temperature'', VFloat (Finite 36)),
         (''blood_sugar'', VFloat (Finite (352 / 5))),
         (''cholesterol'', VFloat (Finite 132)),
         (''created_date'', VStr []), (''allergies'', VList []),
         (''chronic_diseases'', VList []), (''medications'', VList []),
         (''surgeries'', VList []), (''family_history'', VList [])]], None),
      \<lparr>int_tape = [], float_tape = []\<rparr>)"
    by code_simp
  have hm: "generate_health_metrics exact_ops []
        \<lparr>name = [], age = 30, gender = [], height = Finite 180, weight = Finite 81,
         blood_type = [], phone = [], email = [], address = [], emergency_contact = [],
         id_number = []\<rparr> \<lparr>int_tape = [], float_tape = []\<rparr> =
       (Inr \<lparr>bmi = Finite 25, blood_pressure_systolic = 110, blood_pressure_diastolic = 70,
             heart_rate = 60, body_temperature = Finite 36, blood_sugar = Finite 80,
             cholesterol = Finite 150, created_date = []\<rparr>,
        \<lparr>int_tape = [], float_tape = []\<rparr>)"
    by code_simp
  note inst = generated_bmi_consistent [of exact_ops
      "\<lparr>float_repr = (\<lambda>f. []), float_of_str = (\<lambda>s. None),
         int_of_str = (\<lambda>s. None)\<rparr>" "\<lambda>i. []"
      "\<lparr>create_folders = False, generate_csv = False\<rparr>"
      "\<lparr>mkdir_fails = False, person_write_fails = (\<lambda>i. False), csv_open_fails = False\<rparr>" 1
      "\<lparr>int_tape = [], float_tape = [Finite 170, Finite 65]\<rparr>"
      "[[(''name'', VStr [36249, 23478]), (''age'', VInt 18),
         (''gender'', VStr [30007]), (''height'', VFloat (Finite 170)),
         (''weight'', VFloat (Finite 65)), (''blood_type'', VStr [65]),
         (''phone'', VStr [48, 57, 48, 48, 48, 48, 48, 48, 48, 48]),
         (''email'', VStr [117, 115, 101, 114, 49, 48, 48, 48, 64, 103, 109, 97, 105, 108,
            46, 99, 111, 109]),
         (''address'', VStr [21488, 21271, 24066, 20449, 32681, 21312]),
         (''emergency_contact'', VStr [48, 57, 48, 48, 48, 48, 48, 48, 48, 48]),
         (''id_number'', VStr [65, 49, 48, 48, 48, 48, 48, 48, 48]),
         (''bmi'', VFloat (Finite (2249 / 100))),
         (''blood_pressure_systolic'', VInt 110),
         (''blood_pressure_diastolic'', VInt 70), (''heart_rate'', VInt 60),
         (''body_temperature'', VFloat (Finite 36)),
         (''blood_sugar'', VFloat (Finite (352 / 5))),
         (''cholesterol'', VFloat (Finite 132)),
         (''created_date'', VStr []), (''allergies'', VList []),
         (''chronic_diseases'', VList []), (''medications'', VList []),
         (''surgeries'', VList []), (''family_history'', VList [])]]" None
      "\<lparr>int_tape = [], float_tape = []\<rparr>"
      "[(''name'', VStr [36249, 23478]), (''age'', VInt 18),
         (''gender'', VStr [30007]), (''height'', VFloat (Finite 170)),
         (''weight'', VFloat (Finite 65)), (''blood_type'', VStr [65]),
         (''phone'', VStr [48, 57, 48, 48, 48, 48, 48, 48, 48, 48]),
         (''email'', VStr [117, 115, 101, 114, 49, 48, 48, 48, 64, 103, 109, 97, 105, 108,
            46, 99, 111, 109]),
         (''address'', VStr [21488, 21271, 24066, 20449, 32681, 21312]),
         (''emergency_contact'', VStr [48, 57, 48, 48, 48, 48, 48, 48, 48, 48]),
         (''id_number'', VStr [65, 49, 48, 48, 48, 48, 48, 48, 48]),
         (''bmi'', VFloat (Finite (2249 / 100))),
         (''blood_pressure_systolic'', VInt 110),
         (''blood_pressure_diastolic'', VInt 70), (''heart_rate'', VInt 60),
         (''body_temperature'', VFloat (Finite 36)),
         (''blood_sugar'', VFloat (Finite (352 / 5))),
         (''cholesterol'', VFloat (Finite 132)),
         (''created_date'', VStr []), (''allergies'', VList []),
         (''chronic_diseases'', VList []), (''medications'', VList []),
         (''surgeries'', VList []), (''family_history'', VList [])]" "[]"
      "\<lparr>name = [], age = 30, gender = [], height = Finite 180, weight = Finite 81,
         blood_type = [], phone = [], email = [], address = [], emergency_contact = [],
         id_number = []\<rparr>"
      "\<lparr>int_tape = [], float_tape = []\<rparr>"
      "\<lparr>bmi = Finite 25, blood_pressure_systolic = 110, blood_pressure_diastolic = 70,
             heart_rate = 60, body_temperature = Finite 36, blood_sugar = Finite 80,
             cholesterol = Finite 150, created_date = []\<rparr>"
      "\<lparr>int_tape = [], float_tape = []\<rparr>"]
  from inst run obtain h w b where
    "Some (VFloat (Finite 170)) = Some (VFloat h)" "Some (VFloat (Finite 65)) = Some (VFloat w)"
    "Some (VFloat (Finite (2249 / 100))) = Some (VFloat b)" "calculate_bmi exact_ops h w = Inr b"
    by fastforce
  then have c1: "calculate_bmi exact_ops (Finite 170) (Finite 65) = Inr (Finite (2249 / 100))"
    by simp
  from inst hm have c2: "calculate_bmi exact_ops (Finite 180) (Finite 81) = Inr (Finite 25)"
    by simp
  from run hm c1 c2 show ?thesis
    by (intro conjI)
qed

end
